theory Spec2Isabelle
  imports Main "HOL-Library.Sublist" "HOL-Library.Char_ord" "HOL-Library.List_Lexorder"
    "HOL-Library.Multiset"
begin

section \<open>Strings\<close>

text \<open>
  A JavaScript string is modelled as a \<^typ>\<open>string\<close>, one \<^typ>\<open>char\<close> per code unit; the
  strings of the model are those whose code units are below 256.
  \<open>a < b\<close> on strings is the lexicographic order on code units (a proper prefix is
  smaller), which is how JavaScript compares two strings with \<open><\<close> and \<open>>\<close>.
\<close>

text \<open>\<open>s.startsWith(p)\<close>\<close>

definition startsWith :: "string \<Rightarrow> string \<Rightarrow> bool" where
  "startsWith s p = prefix p s"

text \<open>\<open>s.includes(sub)\<close>: \<open>sub\<close> occurs in \<open>s\<close> as a contiguous run of code units.\<close>

fun includesStr :: "string \<Rightarrow> string \<Rightarrow> bool" where
  "includesStr [] sub = (sub = [])"
| "includesStr (c # cs) sub = (prefix sub (c # cs) \<or> includesStr cs sub)"

text \<open>
  \<open>s.toLowerCase()\<close>. A \<^typ>\<open>char\<close> is a code unit from 0 to 255 (Basic Latin and the
  Latin-1 Supplement), and on a string of such code units \<open>toLowerCase\<close> works code unit
  by code unit: the letters \<open>A\<close> to \<open>Z\<close> (0x41 to 0x5A) and the upper-case letters from
  0xC0 to 0xDE, which are all of that range but the multiplication sign 0xD7, become
  the code unit 32 above; every other code unit has no other lower case and is left
  as it is.
\<close>

definition lowerChar :: "char \<Rightarrow> char" where
  "lowerChar c =
     (if (CHR ''A'' \<le> c \<and> c \<le> CHR ''Z'')
         \<or> (CHR 0xC0 \<le> c \<and> c \<le> CHR 0xDE \<and> c \<noteq> CHR 0xD7)
      then char_of (of_char c + (32::nat)) else c)"

definition toLowerCase :: "string \<Rightarrow> string" where
  "toLowerCase s = map lowerChar s"

text \<open>The line feed and the single quote of the generated text.\<close>

definition nl :: string where
  "nl = [CHR 0x0A]"

definition quote :: string where
  "quote = [CHR 0x27]"

section \<open>Data model\<close>

text \<open>\<open>interface FormattableReturnType\<close>\<close>

record FormattableReturnType =
  binaryType :: string
  stringType :: string

text \<open>\<open>interface libsodiumConstant\<close> (fields \<open>name\<close>, \<open>type\<close>)\<close>

record libsodiumConstant =
  c_name :: string
  c_type :: string

text \<open>\<open>interface libsodiumSymbolIO\<close> (fields \<open>name\<close>, \<open>optional?\<close>, \<open>size?\<close>, \<open>type\<close>)\<close>

record libsodiumSymbolIO =
  io_name :: string
  io_optional :: "bool option"
  io_size :: "string option"
  io_type :: string

text \<open>
  \<open>interface libsodiumSymbol\<close>. An optional field is an \<open>option\<close>: \<open>None\<close> is the absent
  field. The field \<open>type\<close> is the constant \<open>'function'\<close>.
\<close>

record libsodiumSymbol =
  sym_assert_retval :: "(string \<times> string) list option"
  sym_dependencies :: "string list option"
  sym_inputs :: "libsodiumSymbolIO list option"
  sym_name :: string
  sym_noOutputFormat :: "bool option"
  sym_outputs :: "libsodiumSymbolIO list option"
  sym_return :: "string option"
  sym_target :: "string option"

text \<open>\<open>string | FormattableReturnType\<close>, the result of \<open>convertReturnType\<close>\<close>

datatype returnType = Plain string | Formattable FormattableReturnType

section \<open>Type mapping\<close>

definition convertType :: "string \<Rightarrow> string" where
  "convertType t =
     (if t = ''uint'' then ''number''
      else if t = ''buf'' \<or> t = ''randombytes_implementation'' then ''Uint8Array''
      else if t = ''unsized_buf'' \<or> t = ''unsized_buf_optional''
        then ''string | Uint8Array | undefined''
      else t)"

definition convertReturnType :: "string \<Rightarrow> returnType" where
  "convertReturnType t =
     (if startsWith t ''{publicKey: _format_output''
        then Formattable \<lparr>binaryType = ''KeyPair'', stringType = ''StringKeyPair''\<rparr>
      else if startsWith t ''_format_output({ciphertext: ciphertext, mac: mac}''
        then Formattable \<lparr>binaryType = ''CryptoBox'', stringType = ''StringCryptoBox''\<rparr>
      else if startsWith t ''_format_output({mac: mac, cipher: cipher}''
        then Formattable \<lparr>binaryType = ''SecretBox'', stringType = ''StringSecretBox''\<rparr>
      else if startsWith t ''_format_output({sharedRx: sharedRx, sharedTx: sharedTx}''
        then Formattable \<lparr>binaryType = ''CryptoKX'', stringType = ''StringCryptoKX''\<rparr>
      else if t = ''random_value'' then Plain ''number''
      else if includesStr t ''=== 0'' then Plain ''boolean''
      else if includesStr t ''stringify'' then Plain ''string''
      else if includesStr t ''_format_output''
        then Formattable \<lparr>binaryType = ''Uint8Array'', stringType = ''string''\<rparr>
      else Plain t)"

section \<open>The generator and what it reads\<close>

text \<open>
  The fields of \<open>class TypeGenerator\<close> that hold state. \<open>libsodiumLocalSource\<close> is
  optional in the constructor. A new generator has version \<open>0.7.3\<close>, \<open>sourceIsSet\<close> false
  and an empty \<open>tmpDir\<close>.
\<close>

record TypeGenerator =
  libsodiumVersion :: string
  sourceIsSet :: bool
  tmpDir :: string
  outputFileOrDir :: string
  libsodiumLocalSource :: "string option"

text \<open>
  The module \<open>./libsodiumTypes\<close> is not among the sources; the generator reads four tables
  from it, which are parameters here. An object is the list of its keys in the order of
  \<open>Object.keys\<close>, each with its value.
\<close>

record libsodiumTypes =
  additionalSymbols :: "libsodiumSymbol list"
  enums :: "(string \<times> string list) list"
  genericTypes :: "(string \<times> (string \<times> string) list) list"
  types :: "(string \<times> string list) list"

text \<open>
  What the loader finds under the source directory, parsed: the array of
  \<open>wrapper/constants.json\<close> and the descriptors of \<open>wrapper/symbols/*\<close> in the order of
  \<open>readdir\<close>.
\<close>

record catalog =
  constantsJson :: "libsodiumConstant list"
  symbolFiles :: "libsodiumSymbol list"

text \<open>The truth value JavaScript gives a string that may be absent.\<close>

definition truthy :: "string option \<Rightarrow> bool" where
  "truthy v = (case v of None \<Rightarrow> False | Some s \<Rightarrow> s \<noteq> [])"

section \<open>Sorting by name\<close>

text \<open>
  The comparator both loaders pass to \<open>sort\<close>:
  \<open>(a, b) => (a.name < b.name ? -1 : a.name > b.name ? 1 : 0)\<close>.
\<close>

definition compareByName :: "('a \<Rightarrow> string) \<Rightarrow> 'a \<Rightarrow> 'a \<Rightarrow> int" where
  "compareByName nm a b = (if nm a < nm b then - 1 else if nm a > nm b then 1 else 0)"

text \<open>
  \<open>Array.prototype.sort(compare)\<close> as a stable insertion sort: an element goes before the
  first element it does not compare greater than.
\<close>

fun insertBy :: "('a \<Rightarrow> 'a \<Rightarrow> int) \<Rightarrow> 'a \<Rightarrow> 'a list \<Rightarrow> 'a list" where
  "insertBy cmp x [] = [x]"
| "insertBy cmp x (y # ys) = (if cmp x y \<le> 0 then x # y # ys else y # insertBy cmp x ys)"

definition jsSort :: "('a \<Rightarrow> 'a \<Rightarrow> int) \<Rightarrow> 'a list \<Rightarrow> 'a list" where
  "jsSort cmp xs = foldr (insertBy cmp) xs []"

section \<open>The loaders\<close>

text \<open>The synthetic constant of \<open>getConstants\<close>.\<close>

definition readyConstant :: libsodiumConstant where
  "readyConstant = \<lparr>c_name = ''ready'', c_type = ''Promise<void>''\<rparr>"

definition getFunctions :: "libsodiumTypes \<Rightarrow> catalog \<Rightarrow> libsodiumSymbol list" where
  "getFunctions lt cat =
     jsSort (compareByName sym_name) (symbolFiles cat @ additionalSymbols lt)"

definition getConstants :: "TypeGenerator \<Rightarrow> catalog \<Rightarrow> libsodiumConstant list" where
  "getConstants g cat =
     (let constants = constantsJson cat;
          constants = (if libsodiumVersion g \<noteq> [] then constants @ [readyConstant]
                       else constants)
      in jsSort (compareByName c_name) constants)"

section \<open>The emitter\<close>

text \<open>
  The callback of \<open>parameterArr.forEach\<close> in \<open>getParameters\<close>: \<open>len\<close> is
  \<open>parameterArr.length\<close>, the result is the new value of \<open>parameters\<close>.
\<close>

definition getParameters_step ::
  "nat \<Rightarrow> bool \<Rightarrow> string \<Rightarrow> libsodiumSymbolIO \<times> nat \<Rightarrow> string" where
  "getParameters_step len formattingAvailable parameters pi =
     (case pi of (param, index) \<Rightarrow>
        let isLast = (int index = int len - 1);
            convertedType = convertType (io_type param);
            optional = includesStr (io_type param) ''optional''
        in parameters @ io_name param @ '': '' @ convertedType
           @ (if optional then '' | null'' else [])
           @ (if isLast \<and> \<not> formattingAvailable then [] else '', ''))"

definition getParameters :: "libsodiumSymbolIO list \<Rightarrow> bool \<Rightarrow> string" where
  "getParameters parameterArr formattingAvailable =
     foldl (getParameters_step (length parameterArr) formattingAvailable) []
       (zip parameterArr [0..<length parameterArr])"

text \<open>
  The callback of \<open>functions.forEach\<close>: the text it appends to \<open>data\<close>, and the symbol as
  the callback leaves it (it assigns \<open>'void'\<close> to a \<open>return\<close> that is absent or empty).
\<close>

definition emitFunction :: "libsodiumSymbol \<Rightarrow> string \<times> libsodiumSymbol" where
  "emitFunction fn0 =
     (let fn = (if \<not> truthy (sym_return fn0) then fn0\<lparr>sym_return := Some ''void''\<rparr> else fn0);
          ret = (case sym_return fn of Some r \<Rightarrow> r | None \<Rightarrow> ''void'');
          formattingAvailable = includesStr ret ''_format_output'';
          inputs = (case sym_inputs fn of
                      Some parameterArr \<Rightarrow> getParameters parameterArr formattingAvailable
                    | None \<Rightarrow> [])
      in (case convertReturnType ret of
            Formattable returnType \<Rightarrow>
              (''  function '' @ sym_name fn
               @ ''('' @ inputs @ ''outputFormat?: Uint8ArrayOutputFormat | null): ''
               @ binaryType returnType
               @ '';'' @ nl
               @ ''  function '' @ sym_name fn
               @ ''('' @ inputs @ ''outputFormat: StringOutputFormat | null): ''
               @ stringType returnType
               @ '';'' @ nl, fn)
          | Plain returnType \<Rightarrow>
              (''  function '' @ sym_name fn @ ''('' @ inputs @ ''): '' @ returnType
               @ '';'' @ nl, fn)))"

text \<open>
  \<open>functions.forEach\<close>: the state is \<open>data\<close> and the symbols visited so far, as the
  callback left them.
\<close>

definition emitFunctions ::
  "libsodiumSymbol list \<Rightarrow> string \<Rightarrow> string \<times> libsodiumSymbol list" where
  "emitFunctions functions data =
     foldl (\<lambda>(data, visited) fn.
              case emitFunction fn of (text, fn') \<Rightarrow> (data @ text, visited @ [fn']))
       (data, []) functions"

text \<open>The callback of \<open>constants.forEach\<close>: the text it appends to \<open>data\<close>.\<close>

definition emitConstant :: "libsodiumConstant \<Rightarrow> string" where
  "emitConstant constant =
     (let convertedType = convertType (c_type constant)
      in ''  const '' @ c_name constant @ '': '' @ convertedType @ '';'' @ nl)"

text \<open>
  \<open>constants.forEach\<close>: the state is \<open>data\<close> and the constants visited so far; the callback
  assigns to no field of a constant, so it leaves each as it found it.
\<close>

definition emitConstants ::
  "libsodiumConstant list \<Rightarrow> string \<Rightarrow> string \<times> libsodiumConstant list" where
  "emitConstants constants data =
     foldl (\<lambda>(data, visited) constant. (data @ emitConstant constant, visited @ [constant]))
       (data, []) constants"

text \<open>The three loops over the tables of \<open>libsodiumTypes\<close>.\<close>

definition emitType :: "string \<Rightarrow> string \<times> string list \<Rightarrow> string" where
  "emitType data kv =
     (case kv of (typeName, typeValues) \<Rightarrow>
        foldl (\<lambda>data (typeValue, index).
                 let isLast = (int index = int (length typeValues) - 1)
                 in data @ typeValue @ (if isLast then '';'' else '' | ''))
          (data @ ''  type '' @ typeName @ '' = '')
          (zip typeValues [0..<length typeValues])
        @ nl)"

definition emitEnum :: "string \<Rightarrow> string \<times> string list \<Rightarrow> string" where
  "emitEnum data kv =
     (case kv of (enumName, enumValues) \<Rightarrow>
        foldl (\<lambda>data enumValue. data @ ''    '' @ enumValue @ '','' @ nl)
          (data @ ''  enum '' @ enumName @ '' {'' @ nl) enumValues
        @ ''  }'' @ nl @ nl)"

definition emitGenericType :: "string \<Rightarrow> string \<times> (string \<times> string) list \<Rightarrow> string" where
  "emitGenericType data kv =
     (case kv of (typeName, members) \<Rightarrow>
        foldl (\<lambda>data (name, type). data @ ''    '' @ name @ '': '' @ type @ '';'' @ nl)
          (data @ ''  interface '' @ typeName @ '' {'' @ nl) members
        @ ''  }'' @ nl @ nl)"

text \<open>\<open>sumo ? '-sumo' : ''\<close>\<close>

definition sumoSuffix :: "bool \<Rightarrow> string" where
  "sumoSuffix sumo = (if sumo then ''-sumo'' else [])"

text \<open>
  \<open>buildData\<close>. The list \<open>sumoOnlySymbols\<close> of the module \<open>./sumoOnlySymbols\<close> is not among
  the sources and is a parameter. The result is the document, then the entries of the
  lists \<open>constants\<close> and \<open>functions\<close> as the two loops over them left them.
\<close>

definition buildData ::
  "libsodiumTypes \<Rightarrow> string list \<Rightarrow> TypeGenerator \<Rightarrow> bool \<Rightarrow> catalog
     \<Rightarrow> string \<times> libsodiumConstant list \<times> libsodiumSymbol list" where
  "buildData lt sumoOnlySymbols g sumo cat =
     (let data =
            ''// Type definitions for libsodium-wrappers'' @ sumoSuffix sumo @ '' ''
              @ libsodiumVersion g @ nl
            @ ''// Project: https://github.com/jedisct1/libsodium.js'' @ nl
            @ ''// Definitions by: Florian Keller <https://github.com/ffflorian>'' @ nl @ nl
            @ ''declare module '' @ quote @ ''libsodium-wrappers'' @ sumoSuffix sumo @ quote
              @ '' {'' @ nl;
          data = foldl emitType data (types lt);
          data = data @ nl;
          data = foldl emitEnum data (enums lt);
          data = foldl emitGenericType data (genericTypes lt);
          constants = getConstants g cat;
          constants =
            (if \<not> sumo
             then filter (\<lambda>constant. toLowerCase (c_name constant) \<notin> set sumoOnlySymbols)
                    constants
             else constants)
      in case emitConstants constants data of
           (data, constants) \<Rightarrow>
             (let data = data @ nl;
                  functions = getFunctions lt cat;
                  functions =
                    (if \<not> sumo
                     then filter (\<lambda>func. toLowerCase (sym_name func) \<notin> set sumoOnlySymbols)
                            functions
                     else functions)
              in case emitFunctions functions data of
                   (data, functions) \<Rightarrow> (data @ ''}'', constants, functions)))"

section \<open>The public methods\<close>

text \<open>What a rejected promise carries: \<open>new Error(message)\<close>, or an error of the platform.\<close>

datatype error = Error string

text \<open>A JavaScript number that is an integer or \<open>NaN\<close>, with \<open>isNaN(n)\<close> and \<open>n < 0\<close>.\<close>

datatype jsNumber = NaN | Num int

definition isNaN :: "jsNumber \<Rightarrow> bool" where
  "isNaN n = (n = NaN)"

definition belowZero :: "jsNumber \<Rightarrow> bool" where
  "belowZero n = (case n of NaN \<Rightarrow> False | Num i \<Rightarrow> i < 0)"

text \<open>
  The constructor, for an output target that is already an absolute, normalised path
  (the constructor resolves its argument against the working directory).
\<close>

definition newTypeGenerator :: "string \<Rightarrow> string option \<Rightarrow> TypeGenerator" where
  "newTypeGenerator target localSource =
     \<lparr>libsodiumVersion = ''0.7.3'', sourceIsSet = False, tmpDir = [],
      outputFileOrDir = target, libsodiumLocalSource = localSource\<rparr>"

text \<open>
  A method is a step on the generator and the world outside it (file system and
  network, of type \<open>'w\<close>): it returns the value its promise resolves to, or the error it
  rejects with, and the generator and the world as it leaves them.

  \<open>setDownloadVersion\<close>. The function \<open>utils.compareVersionNumbers\<close> is not among the
  sources and is the parameter \<open>compareVersionNumbers\<close>.
\<close>

definition setDownloadVersion ::
  "(string \<Rightarrow> string \<Rightarrow> jsNumber) \<Rightarrow> string \<Rightarrow> TypeGenerator \<times> 'w
     \<Rightarrow> (error + unit) \<times> (TypeGenerator \<times> 'w)" where
  "setDownloadVersion compareVersionNumbers version gw =
     (case gw of (g, w) \<Rightarrow>
        let comparison = compareVersionNumbers version (libsodiumVersion g)
        in if isNaN comparison \<or> belowZero comparison
           then (Inl (Error (''Minimum version is '' @ libsodiumVersion g @ ''.'')), (g, w))
           else (Inr (), (g\<lparr>libsodiumVersion := version\<rparr>, w)))"

definition getVersion :: "TypeGenerator \<Rightarrow> string" where
  "getVersion g = libsodiumVersion g"

definition externalLibsodiumSource :: "TypeGenerator \<Rightarrow> string" where
  "externalLibsodiumSource g =
     ''https://github.com/jedisct1/libsodium.js/archive/'' @ libsodiumVersion g @ ''.zip''"

text \<open>
  \<open>path.join(a, b)\<close> and \<open>path.resolve(dir, name)\<close> for an absolute, normalised first
  argument and a plain name as the second.
\<close>

definition pathJoin :: "string \<Rightarrow> string \<Rightarrow> string" where
  "pathJoin a b = (if a = ''/'' then a @ b else a @ ''/'' @ b)"

definition pathResolve :: "string \<Rightarrow> string \<Rightarrow> string" where
  "pathResolve dir name = (if dir = ''/'' then dir @ name else dir @ ''/'' @ name)"

text \<open>
  What the generator calls outside itself, as steps on the world: the functions of
  \<open>utils\<close> (not among the sources), \<open>decompress\<close>, \<open>rimraf\<close>, and of \<open>fs\<close> the calls
  \<open>lstat(p).isDirectory()\<close> and \<open>writeFile\<close>. \<open>readCatalog\<close> stands for the reads of
  \<open>getConstants\<close> and \<open>getFunctions\<close> under a source directory (\<open>readFile\<close>, \<open>readdir\<close>,
  \<open>JSON.parse\<close>).
\<close>

record 'w collaborators =
  createTmp :: "'w \<Rightarrow> (error + string) \<times> 'w"
  httpsGetFileAsync :: "string \<Rightarrow> string \<Rightarrow> 'w \<Rightarrow> (error + string) \<times> 'w"
  decompress :: "string \<Rightarrow> string \<Rightarrow> 'w \<Rightarrow> (error + unit) \<times> 'w"
  checkSource :: "string \<Rightarrow> 'w \<Rightarrow> (error + unit) \<times> 'w"
  readCatalog :: "string \<Rightarrow> 'w \<Rightarrow> (error + catalog) \<times> 'w"
  lstatIsDirectory :: "string \<Rightarrow> 'w \<Rightarrow> (error + bool) \<times> 'w"
  writeFile :: "string \<Rightarrow> string \<Rightarrow> 'w \<Rightarrow> (error + unit) \<times> 'w"
  rimraf :: "string \<Rightarrow> 'w \<Rightarrow> (error + unit) \<times> 'w"

text \<open>
  \<open>await\<close>: when the awaited step rejects, the method rejects with the same error and
  the state the step left; otherwise the method goes on with the value and that state.
  \<open>outside g\<close> makes a step of a call on the world that leaves the generator \<open>g\<close> as
  it is.
\<close>

definition await ::
  "(error + 'a) \<times> 's \<Rightarrow> ('a \<Rightarrow> 's \<Rightarrow> (error + 'b) \<times> 's) \<Rightarrow> (error + 'b) \<times> 's" where
  "await step rest = (case step of (Inl e, s) \<Rightarrow> (Inl e, s) | (Inr a, s) \<Rightarrow> rest a s)"

definition outside ::
  "TypeGenerator \<Rightarrow> (error + 'a) \<times> 'w \<Rightarrow> (error + 'a) \<times> (TypeGenerator \<times> 'w)" where
  "outside g step = (case step of (r, w) \<Rightarrow> (r, (g, w)))"

definition downloadLibrary ::
  "'w collaborators \<Rightarrow> TypeGenerator \<times> 'w \<Rightarrow> (error + string) \<times> (TypeGenerator \<times> 'w)" where
  "downloadLibrary io gw =
     (case gw of (g, w) \<Rightarrow>
        await (case createTmp io w of
                 (Inl (Error message), w) \<Rightarrow>
                   (Inl (Error (''Could not create temp dir: '' @ message)), (g, w))
               | (Inr tmp, w) \<Rightarrow> (Inr (), (g\<lparr>tmpDir := tmp\<rparr>, w)))
          (\<lambda>_ (g, w).
             let zipURL = externalLibsodiumSource g;
                 downloadFileName = pathJoin (tmpDir g) ''libsodium.zip''
             in await (outside g (httpsGetFileAsync io zipURL downloadFileName w))
                  (\<lambda>file (g, w).
                     await (outside g (decompress io file (tmpDir g) w))
                       (\<lambda>_ (g, w).
                          let proposedSymbolSource =
                                pathJoin (tmpDir g) (''libsodium.js-'' @ libsodiumVersion g)
                          in (Inr proposedSymbolSource, (g, w))))))"

text \<open>
  \<open>generate\<close>. The tables of \<open>libsodiumTypes\<close> and \<open>sumoOnlySymbols\<close> are parameters, as in
  \<open>buildData\<close>. The first step leaves the source directory in \<open>libsodiumLocalSource\<close> and
  hands it on as \<open>src\<close>.
\<close>

definition generate ::
  "'w collaborators \<Rightarrow> libsodiumTypes \<Rightarrow> string list \<Rightarrow> bool \<Rightarrow> TypeGenerator \<times> 'w
     \<Rightarrow> (error + string) \<times> (TypeGenerator \<times> 'w)" where
  "generate io lt sumoOnlySymbols sumo gw =
     (case gw of (g, w) \<Rightarrow>
        await (if truthy (libsodiumLocalSource g)
               then (Inr (the (libsodiumLocalSource g)), (g\<lparr>sourceIsSet := True\<rparr>, w))
               else await (downloadLibrary io (g, w))
                      (\<lambda>src (g, w). (Inr src, (g\<lparr>libsodiumLocalSource := Some src\<rparr>, w))))
          (\<lambda>src (g, w).
             await (outside g (checkSource io src w))
               (\<lambda>_ (g, w).
                  await (outside g (readCatalog io src w))
                    (\<lambda>cat (g, w).
                       let data = fst (buildData lt sumoOnlySymbols g sumo cat)
                       in await (outside g (lstatIsDirectory io (outputFileOrDir g) w))
                            (\<lambda>isDirectory (g, w).
                               let g = (if isDirectory
                                        then (let fileName =
                                                    ''libsodium-wrappers'' @ sumoSuffix sumo
                                                    @ ''.d.ts''
                                              in g\<lparr>outputFileOrDir :=
                                                     pathResolve (outputFileOrDir g) fileName\<rparr>)
                                        else g)
                               in await (outside g (writeFile io (outputFileOrDir g) data w))
                                    (\<lambda>_ (g, w).
                                       await (if \<not> sourceIsSet g
                                              then outside g (rimraf io src w)
                                              else (Inr (), (g, w)))
                                         (\<lambda>_ (g, w).
                                            await (if tmpDir g \<noteq> []
                                                   then await (outside g (rimraf io (tmpDir g) w))
                                                          (\<lambda>_ (g, w).
                                                             (Inr (), (g\<lparr>tmpDir := []\<rparr>, w)))
                                                   else (Inr (), (g, w)))
                                              (\<lambda>_ (g, w).
                                                 (Inr (outputFileOrDir g), (g, w))))))))))"

definition generateStandard ::
  "'w collaborators \<Rightarrow> libsodiumTypes \<Rightarrow> string list \<Rightarrow> TypeGenerator \<times> 'w
     \<Rightarrow> (error + string) \<times> (TypeGenerator \<times> 'w)" where
  "generateStandard io lt sumoOnlySymbols gw = generate io lt sumoOnlySymbols False gw"

definition generateSumo ::
  "'w collaborators \<Rightarrow> libsodiumTypes \<Rightarrow> string list \<Rightarrow> TypeGenerator \<times> 'w
     \<Rightarrow> (error + string) \<times> (TypeGenerator \<times> 'w)" where
  "generateSumo io lt sumoOnlySymbols gw = generate io lt sumoOnlySymbols True gw"

section \<open>The version comparison\<close>

text \<open>
  Modelled from the spec: \<open>utils.compareVersionNumbers\<close> is not among the sources. The
  spec says of it that the comparison fails closed: a non-numeric or lower version is
  rejected. Here a version is numeric when it is a list of non-empty digit strings
  separated by dots; the result is \<open>NaN\<close> when either version is not numeric, and
  otherwise the sign of the comparison of the two lists of numbers, component by
  component from the left.
\<close>

fun splitOn :: "char \<Rightarrow> string \<Rightarrow> string list" where
  "splitOn sep [] = [[]]"
| "splitOn sep (c # cs) =
     (if c = sep then [] # splitOn sep cs
      else (case splitOn sep cs of part # parts \<Rightarrow> (c # part) # parts | [] \<Rightarrow> [[c]]))"

definition isDigit :: "char \<Rightarrow> bool" where
  "isDigit c = (CHR ''0'' \<le> c \<and> c \<le> CHR ''9'')"

definition isPositiveInteger :: "string \<Rightarrow> bool" where
  "isPositiveInteger s = (s \<noteq> [] \<and> list_all isDigit s)"

definition parseNat :: "string \<Rightarrow> nat" where
  "parseNat s = foldl (\<lambda>n c. 10 * n + (of_char c - 48)) 0 s"

definition compareVersionNumbers :: "string \<Rightarrow> string \<Rightarrow> jsNumber" where
  "compareVersionNumbers v1 v2 =
     (let v1parts = splitOn (CHR ''.'') v1;
          v2parts = splitOn (CHR ''.'') v2
      in if \<not> (list_all isPositiveInteger v1parts \<and> list_all isPositiveInteger v2parts) then NaN
         else if map parseNat v1parts < map parseNat v2parts then Num (- 1)
         else if map parseNat v2parts < map parseNat v1parts then Num 1
         else Num 0)"

section \<open>A file system in memory\<close>

text \<open>
  Modelled from the spec: the functions \<open>createTmp\<close>, \<open>httpsGetFileAsync\<close> and
  \<open>checkSource\<close> of \<open>utils\<close> are not among the sources. The spec says of them that a
  failed fetch and a catalog without its required files abort the generation. Here
  they, and the calls on \<open>fs\<close>, \<open>decompress\<close> and \<open>rimraf\<close>, act on a world in memory:
  directories and files by path (the first entry of a path is the current one), and the
  parsed catalog of each source directory. There is no network in it: a download fails.
\<close>

datatype fsNode = Directory | File string

record memory =
  nodes :: "(string \<times> fsNode) list"
  catalogs :: "(string \<times> catalog) list"

definition memoryIO :: "memory collaborators" where
  "memoryIO =
     \<lparr>createTmp = (\<lambda>w. (Inr ''/tmp/libsodium'', w\<lparr>nodes := (''/tmp/libsodium'', Directory) # nodes w\<rparr>)),
      httpsGetFileAsync = (\<lambda>url file w. (Inl (Error ''getaddrinfo ENOTFOUND''), w)),
      decompress = (\<lambda>file dir w. (Inl (Error ''ENOENT''), w)),
      checkSource = (\<lambda>src w.
        case map_of (catalogs w) src of
          None \<Rightarrow> (Inl (Error ''ENOENT''), w)
        | Some cat \<Rightarrow> (Inr (), w)),
      readCatalog = (\<lambda>src w.
        case map_of (catalogs w) src of
          None \<Rightarrow> (Inl (Error ''ENOENT''), w)
        | Some cat \<Rightarrow> (Inr cat, w)),
      lstatIsDirectory = (\<lambda>p w.
        case map_of (nodes w) p of
          None \<Rightarrow> (Inl (Error ''ENOENT''), w)
        | Some Directory \<Rightarrow> (Inr True, w)
        | Some (File content) \<Rightarrow> (Inr False, w)),
      writeFile = (\<lambda>p data w.
        case map_of (nodes w) p of
          Some Directory \<Rightarrow> (Inl (Error ''EISDIR''), w)
        | _ \<Rightarrow> (Inr (), w\<lparr>nodes := (p, File data) # nodes w\<rparr>)),
      rimraf = (\<lambda>p w.
        (Inr (), w\<lparr>nodes := filter (\<lambda>(q, n). \<not> prefix p q) (nodes w),
                    catalogs := filter (\<lambda>(q, c). \<not> prefix p q) (catalogs w)\<rparr>))\<rparr>"

text \<open>
  A directory \<open>/out\<close> to write to and a source directory \<open>/libsodium.js\<close> with an empty
  catalog.
\<close>

definition emptyCatalog :: catalog where
  "emptyCatalog = \<lparr>constantsJson = [], symbolFiles = []\<rparr>"

definition outWorld :: memory where
  "outWorld =
     \<lparr>nodes = [(''/out'', Directory)], catalogs = [(''/libsodium.js'', emptyCatalog)]\<rparr>"

section \<open>Reading the emitter's output\<close>

text \<open>
  The definitions of this section name the values the emitter works with, so that
  statements can speak of them. They are compared with the code of the emitter by the
  lemmas that follow.
\<close>

text \<open>\<open>xs.join(sep)\<close>\<close>

fun joinWith :: "string \<Rightarrow> string list \<Rightarrow> string" where
  "joinWith sep [] = []"
| "joinWith sep [x] = x"
| "joinWith sep (x # y # ys) = x @ sep @ joinWith sep (y # ys)"

text \<open>One declared parameter as \<open>getParameters\<close> writes it, without a separator.\<close>

definition renderParameter :: "libsodiumSymbolIO \<Rightarrow> string" where
  "renderParameter param =
     io_name param @ '': '' @ convertType (io_type param)
     @ (if includesStr (io_type param) ''optional'' then '' | null'' else [])"

text \<open>One signature line of the document: \<open>function name(parameters): type;\<close>\<close>

definition signature :: "string \<Rightarrow> string \<Rightarrow> string \<Rightarrow> string" where
  "signature name parameters returns =
     ''  function '' @ name @ ''('' @ parameters @ ''): '' @ returns @ '';'' @ nl"

text \<open>
  Two overload signatures with the same input parameters, each followed by its own
  output-format selector.
\<close>

definition overloads ::
  "string \<Rightarrow> string \<Rightarrow> string \<Rightarrow> string \<Rightarrow> FormattableReturnType \<Rightarrow> string" where
  "overloads name inputs binarySelector stringSelector returnType =
     signature name (inputs @ binarySelector) (binaryType returnType)
     @ signature name (inputs @ stringSelector) (stringType returnType)"

text \<open>The return expression the emitter works with: \<open>'void'\<close> when the field is absent or empty.\<close>

definition returnOrVoid :: "libsodiumSymbol \<Rightarrow> string" where
  "returnOrVoid fn = (if truthy (sym_return fn) then the (sym_return fn) else ''void'')"

text \<open>\<open>formattingAvailable\<close> and \<open>inputs\<close> of the callback of \<open>functions.forEach\<close>.\<close>

definition formattingAvailable :: "libsodiumSymbol \<Rightarrow> bool" where
  "formattingAvailable fn = includesStr (returnOrVoid fn) ''_format_output''"

definition renderedInputs :: "libsodiumSymbol \<Rightarrow> string" where
  "renderedInputs fn =
     (case sym_inputs fn of
        Some parameterArr \<Rightarrow> getParameters parameterArr (formattingAvailable fn)
      | None \<Rightarrow> [])"

text \<open>The symbol after the callback of \<open>functions.forEach\<close> has run on it.\<close>

definition defaultReturn :: "libsodiumSymbol \<Rightarrow> libsodiumSymbol" where
  "defaultReturn fn = (if truthy (sym_return fn) then fn else fn\<lparr>sym_return := Some ''void''\<rparr>)"

text \<open>
  The list \<open>constants\<close> when \<open>constants.forEach\<close> starts and the list \<open>functions\<close> when
  \<open>functions.forEach\<close> starts: the entries a document declares.
\<close>

definition emittedConstants ::
  "string list \<Rightarrow> TypeGenerator \<Rightarrow> bool \<Rightarrow> catalog \<Rightarrow> libsodiumConstant list" where
  "emittedConstants sumoOnlySymbols g sumo cat =
     (let constants = getConstants g cat
      in if \<not> sumo
         then filter (\<lambda>constant. toLowerCase (c_name constant) \<notin> set sumoOnlySymbols)
                constants
         else constants)"

definition emittedFunctions ::
  "libsodiumTypes \<Rightarrow> string list \<Rightarrow> bool \<Rightarrow> catalog \<Rightarrow> libsodiumSymbol list" where
  "emittedFunctions lt sumoOnlySymbols sumo cat =
     (let functions = getFunctions lt cat
      in if \<not> sumo
         then filter (\<lambda>func. toLowerCase (sym_name func) \<notin> set sumoOnlySymbols) functions
         else functions)"

text \<open>The parts of a document before the constants.\<close>

definition header :: "TypeGenerator \<Rightarrow> bool \<Rightarrow> string" where
  "header g sumo =
     ''// Type definitions for libsodium-wrappers'' @ sumoSuffix sumo @ '' ''
       @ libsodiumVersion g @ nl
     @ ''// Project: https://github.com/jedisct1/libsodium.js'' @ nl
     @ ''// Definitions by: Florian Keller <https://github.com/ffflorian>'' @ nl @ nl
     @ ''declare module '' @ quote @ ''libsodium-wrappers'' @ sumoSuffix sumo @ quote
       @ '' {'' @ nl"

definition tablesText :: "libsodiumTypes \<Rightarrow> string" where
  "tablesText lt =
     concat (map (emitType []) (types lt)) @ nl
     @ concat (map (emitEnum []) (enums lt))
     @ concat (map (emitGenericType []) (genericTypes lt))"

text \<open>A document with the given constant and function entries.\<close>

definition document ::
  "libsodiumTypes \<Rightarrow> TypeGenerator \<Rightarrow> bool \<Rightarrow> libsodiumConstant list \<Rightarrow> libsodiumSymbol list
     \<Rightarrow> string" where
  "document lt g sumo constants functions =
     header g sumo @ tablesText lt
     @ concat (map emitConstant constants) @ nl
     @ concat (map (fst \<circ> emitFunction) functions) @ ''}''"

section \<open>Example inputs\<close>

definition exampleSymbol ::
  "string \<Rightarrow> libsodiumSymbolIO list option \<Rightarrow> string option \<Rightarrow> libsodiumSymbol" where
  "exampleSymbol name inputs ret =
     \<lparr>sym_assert_retval = None, sym_dependencies = None, sym_inputs = inputs,
      sym_name = name, sym_noOutputFormat = None, sym_outputs = None, sym_return = ret,
      sym_target = None\<rparr>"

definition exampleIO :: "string \<Rightarrow> string \<Rightarrow> libsodiumSymbolIO" where
  "exampleIO name type = \<lparr>io_name = name, io_optional = None, io_size = None, io_type = type\<rparr>"

text \<open>A key-pair function with one optional buffer input.\<close>

definition seedKeypair :: libsodiumSymbol where
  "seedKeypair =
     exampleSymbol ''crypto_box_seed_keypair'' (Some [exampleIO ''seed'' ''unsized_buf_optional''])
       (Some ''{publicKey: _format_output(pk, outputFormat), privateKey: _format_output(sk, outputFormat)}'')"

text \<open>A key-pair function that declares no input.\<close>

definition plainKeypair :: libsodiumSymbol where
  "plainKeypair =
     exampleSymbol ''crypto_box_keypair'' (Some [])
       (Some ''{publicKey: _format_output(pk, outputFormat), privateKey: _format_output(sk, outputFormat)}'')"

text \<open>A function whose return expression formats a value and compares it with zero.\<close>

definition formattedTest :: libsodiumSymbol where
  "formattedTest =
     exampleSymbol ''f'' (Some [exampleIO ''a'' ''buf''])
       (Some ''_format_output(x, outputFormat) === 0'')"

text \<open>A function with no inputs and no \<open>return\<close> field.\<close>

definition noReturn :: libsodiumSymbol where
  "noReturn = exampleSymbol ''f'' None None"

definition emptyTypes :: libsodiumTypes where
  "emptyTypes = \<lparr>additionalSymbols = [], enums = [], genericTypes = [], types = []\<rparr>"

definition freshGenerator :: TypeGenerator where
  "freshGenerator =
     \<lparr>libsodiumVersion = ''0.7.3'', sourceIsSet = False, tmpDir = [],
      outputFileOrDir = ''/out'', libsodiumLocalSource = Some ''/libsodium.js''\<rparr>"

text \<open>
  Constants \<open>B\<close> and \<open>A\<close> in the upstream file, and one function with no inputs and no
  \<open>return\<close> field.
\<close>

definition scenarioA :: catalog where
  "scenarioA =
     \<lparr>constantsJson =
        [\<lparr>c_name = ''B'', c_type = ''string''\<rparr>, \<lparr>c_name = ''A'', c_type = ''uint''\<rparr>],
      symbolFiles = [noReturn]\<rparr>"

text \<open>An upstream constants file that itself lists a constant named \<open>ready\<close>.\<close>

definition readyTwice :: catalog where
  "readyTwice =
     \<lparr>constantsJson = [\<lparr>c_name = ''ready'', c_type = ''uint''\<rparr>], symbolFiles = []\<rparr>"

text \<open>A catalog of one function, without a \<open>return\<close> field.\<close>

definition oneFunction :: catalog where
  "oneFunction = \<lparr>constantsJson = [], symbolFiles = [noReturn]\<rparr>"

text \<open>A catalog of one key-pair function.\<close>

definition oneKeypair :: catalog where
  "oneKeypair = \<lparr>constantsJson = [], symbolFiles = [seedKeypair]\<rparr>"

section \<open>Statements about a method's outcome\<close>

text \<open>\<open>keeps P r\<close>: the generator satisfies \<open>P\<close> after the step, resolved or rejected.\<close>

definition keeps ::
  "(TypeGenerator \<Rightarrow> bool) \<Rightarrow> (error + 'a) \<times> (TypeGenerator \<times> 'w) \<Rightarrow> bool" where
  "keeps P r = P (fst (snd r))"

text \<open>
  \<open>resolves Q r\<close>: when the step resolves, its value and the generator it leaves
  satisfy \<open>Q\<close>.
\<close>

definition resolves ::
  "('a \<Rightarrow> TypeGenerator \<Rightarrow> bool) \<Rightarrow> (error + 'a) \<times> (TypeGenerator \<times> 'w) \<Rightarrow> bool" where
  "resolves Q r = (case r of (Inl e, s) \<Rightarrow> True | (Inr a, (g, w)) \<Rightarrow> Q a g)"

text \<open>
  A new generator for the directory \<open>/out\<close> with a local source, and the same generator
  after a first call of \<open>generateStandard\<close>.
\<close>

definition outGenerator :: TypeGenerator where
  "outGenerator = newTypeGenerator ''/out'' (Some ''/libsodium.js'')"

definition afterStandard :: TypeGenerator where
  "afterStandard =
     \<lparr>libsodiumVersion = ''0.7.3'', sourceIsSet = True, tmpDir = [],
      outputFileOrDir = ''/out/libsodium-wrappers.d.ts'',
      libsodiumLocalSource = Some ''/libsodium.js''\<rparr>"

text \<open>
  A catalog with one constant and one function whose names, lower-cased, are in the
  exclusion list \<open>sumoOnly\<close>, and one function that is not.
\<close>

definition scenarioC :: catalog where
  "scenarioC =
     \<lparr>constantsJson = [\<lparr>c_name = ''crypto_X'', c_type = ''uint''\<rparr>],
      symbolFiles = [exampleSymbol ''f'' None None, exampleSymbol ''crypto_Y'' None None]\<rparr>"

definition sumoOnly :: "string list" where
  "sumoOnly = [''crypto_x'', ''crypto_y'']"

text \<open>
  A catalog whose one constant has a name that ends with the upper-case letter 0xC9
  (E with acute accent), and an exclusion list with the same name in lower case (0xE9).
\<close>

definition accentCatalog :: catalog where
  "accentCatalog =
     \<lparr>constantsJson = [\<lparr>c_name = ''crypto_'' @ [CHR 0xC9], c_type = ''uint''\<rparr>],
      symbolFiles = []\<rparr>"

definition accentOnly :: "string list" where
  "accentOnly = [''crypto_'' @ [CHR 0xE9]]"

section \<open>Facts about strings\<close>

lemma includesStr_iff_sublist: "includesStr s sub \<longleftrightarrow> sublist sub s"
  by (induction s) (auto simp: sublist_Cons_right)

lemma includesStr_append_left: "includesStr s sub \<Longrightarrow> includesStr (p @ s) sub"
  by (induction p) auto

lemma startsWith_includes:
  assumes "startsWith s (p @ sub @ q)"
  shows "includesStr s sub"
proof -
  from assms obtain r where "s = (p @ sub @ q) @ r"
    by (auto simp: startsWith_def prefix_def)
  then have "s = p @ sub @ (q @ r)"
    by simp
  then show ?thesis
    unfolding includesStr_iff_sublist sublist_def by blast
qed

section \<open>The priority order of convertReturnType\<close>

text \<open>
  Claim C1. A return expression that begins with one of the four structured-output
  markers and also contains the generic marker \<open>_format_output\<close> resolves to the paired
  record type of its marker, and never to the generic pair of \<open>Uint8Array\<close> and
  \<open>string\<close>.
\<close>

theorem convertReturnType_specific_first:
  assumes "includesStr t ''_format_output''"
  shows "(startsWith t ''{publicKey: _format_output'' \<longrightarrow>
            convertReturnType t =
              Formattable \<lparr>binaryType = ''KeyPair'', stringType = ''StringKeyPair''\<rparr>)
       \<and> (startsWith t ''_format_output({ciphertext: ciphertext, mac: mac}'' \<longrightarrow>
            convertReturnType t =
              Formattable \<lparr>binaryType = ''CryptoBox'', stringType = ''StringCryptoBox''\<rparr>)
       \<and> (startsWith t ''_format_output({mac: mac, cipher: cipher}'' \<longrightarrow>
            convertReturnType t =
              Formattable \<lparr>binaryType = ''SecretBox'', stringType = ''StringSecretBox''\<rparr>)
       \<and> (startsWith t ''_format_output({sharedRx: sharedRx, sharedTx: sharedTx}'' \<longrightarrow>
            convertReturnType t =
              Formattable \<lparr>binaryType = ''CryptoKX'', stringType = ''StringCryptoKX''\<rparr>)
       \<and> ((startsWith t ''{publicKey: _format_output''
            \<or> startsWith t ''_format_output({ciphertext: ciphertext, mac: mac}''
            \<or> startsWith t ''_format_output({mac: mac, cipher: cipher}''
            \<or> startsWith t ''_format_output({sharedRx: sharedRx, sharedTx: sharedTx}'') \<longrightarrow>
            convertReturnType t \<noteq>
              Formattable \<lparr>binaryType = ''Uint8Array'', stringType = ''string''\<rparr>)"
  by (auto simp: convertReturnType_def startsWith_def prefix_def)

theorem convertReturnType_specific_first_witness:
  "includesStr ''_format_output({mac: mac, cipher: cipher}, outputFormat)'' ''_format_output''
   \<and> startsWith ''_format_output({mac: mac, cipher: cipher}, outputFormat)''
         ''_format_output({mac: mac, cipher: cipher}''
   \<and> convertReturnType ''_format_output({mac: mac, cipher: cipher}, outputFormat)'' =
         Formattable \<lparr>binaryType = ''SecretBox'', stringType = ''StringSecretBox''\<rparr>
   \<and> convertReturnType ''_format_output({mac: mac, cipher: cipher}, outputFormat)'' \<noteq>
         Formattable \<lparr>binaryType = ''Uint8Array'', stringType = ''string''\<rparr>"
proof -
  let ?t = "''_format_output({mac: mac, cipher: cipher}, outputFormat)''"
  have i: "includesStr ?t ''_format_output''"
    by (simp add: includesStr_iff_sublist sublist_code)
  have s: "startsWith ?t ''_format_output({mac: mac, cipher: cipher}''"
    by (simp add: startsWith_def)
  from convertReturnType_specific_first [OF i] s i show ?thesis
    by blast
qed

section \<open>The loops of the emitter as joins\<close>

lemma compareByName_le: "compareByName nm a b \<le> 0 \<longleftrightarrow> nm a \<le> nm b"
  by (auto simp: compareByName_def)

lemma insertBy_insort_key: "insertBy (compareByName nm) x xs = insort_key nm x xs"
  by (induction xs) (simp_all add: compareByName_le)

lemma jsSort_sort_key: "jsSort (compareByName nm) xs = sort_key nm xs"
  by (induction xs) (simp_all add: jsSort_def insertBy_insort_key)

lemma getParameters_fold:
  "n = k + length xs \<Longrightarrow>
   foldl (getParameters_step n fa) acc (zip xs [k..<n]) =
     acc @ joinWith '', '' (map renderParameter xs) @ (if fa \<and> xs \<noteq> [] then '', '' else [])"
proof (induction xs arbitrary: acc k)
  case Nil
  then show ?case by simp
next
  case (Cons x xs)
  have "k < n"
    using Cons.prems by simp
  then have upt: "[k..<n] = k # [Suc k..<n]"
    by (rule upt_conv_Cons)
  have n: "n = Suc k + length xs"
    using Cons.prems by simp
  show ?case
  proof (cases xs)
    case Nil
    then show ?thesis
      using Cons.prems by (simp add: upt getParameters_step_def renderParameter_def)
  next
    case (Cons y ys)
    then have "int k \<noteq> int n - 1"
      using n by simp
    then show ?thesis
      using Cons.IH [OF n] Cons
      by (simp add: upt getParameters_step_def renderParameter_def)
  qed
qed

lemma getParameters_join:
  "getParameters xs fa =
     joinWith '', '' (map renderParameter xs) @ (if fa \<and> xs \<noteq> [] then '', '' else [])"
  unfolding getParameters_def using getParameters_fold [of "length xs" 0 xs fa "[]"] by simp

lemma emitFunctions_fold:
  "foldl (\<lambda>(data, visited) fn.
            case emitFunction fn of (text, fn') \<Rightarrow> (data @ text, visited @ [fn']))
     (data, visited) fns =
   (data @ concat (map (fst \<circ> emitFunction) fns), visited @ map (snd \<circ> emitFunction) fns)"
  by (induction fns arbitrary: data visited) (simp_all add: case_prod_beta)

lemma emitFunctions_eq:
  "emitFunctions fns data =
     (data @ concat (map (fst \<circ> emitFunction) fns), map (snd \<circ> emitFunction) fns)"
  by (simp add: emitFunctions_def emitFunctions_fold)

lemma emitConstants_fold:
  "foldl (\<lambda>(data, visited) constant. (data @ emitConstant constant, visited @ [constant]))
     (data, visited) cs =
   (data @ concat (map emitConstant cs), visited @ cs)"
  by (induction cs arbitrary: data visited) simp_all

lemma emitConstants_eq:
  "emitConstants cs data = (data @ concat (map emitConstant cs), cs)"
  by (simp add: emitConstants_def emitConstants_fold)

lemma foldl_appending:
  assumes "\<And>d x. f d x = d @ f [] x"
  shows "foldl f data xs = data @ concat (map (f []) xs)"
proof (induction xs arbitrary: data)
  case Nil
  show ?case by simp
next
  case (Cons x xs)
  have "foldl f data (x # xs) = foldl f (f data x) xs" by simp
  also have "\<dots> = f data x @ concat (map (f []) xs)" by (rule Cons.IH)
  also have "\<dots> = data @ concat (map (f []) (x # xs))"
    using assms [of data x] by simp
  finally show ?case .
qed

lemma emitType_appends: "emitType d kv = d @ emitType [] kv"
proof -
  obtain typeName typeValues where kv: "kv = (typeName, typeValues)" by (cases kv)
  have "foldl (\<lambda>data (typeValue, index).
                 let isLast = (int index = int n - 1)
                 in data @ typeValue @ (if isLast then '';'' else '' | '')) (d @ e) zs
        = d @ foldl (\<lambda>data (typeValue, index).
                 let isLast = (int index = int n - 1)
                 in data @ typeValue @ (if isLast then '';'' else '' | '')) e zs"
    for n e and zs :: "(string \<times> nat) list"
    by (induction zs arbitrary: e) (simp_all add: case_prod_beta Let_def)
  from this [of "length typeValues" "''  type '' @ typeName @ '' = ''"]
  show ?thesis by (simp add: emitType_def kv)
qed

lemma emitEnum_appends: "emitEnum d kv = d @ emitEnum [] kv"
proof -
  obtain enumName enumValues where kv: "kv = (enumName, enumValues)" by (cases kv)
  have "foldl (\<lambda>data enumValue. data @ ''    '' @ enumValue @ '','' @ nl) (d @ e) zs
        = d @ foldl (\<lambda>data enumValue. data @ ''    '' @ enumValue @ '','' @ nl) e zs"
    for e and zs :: "string list"
    by (induction zs arbitrary: e) simp_all
  from this [of "''  enum '' @ enumName @ '' {'' @ nl"]
  show ?thesis by (simp add: emitEnum_def kv)
qed

lemma emitGenericType_appends: "emitGenericType d kv = d @ emitGenericType [] kv"
proof -
  obtain typeName members where kv: "kv = (typeName, members)" by (cases kv)
  have "foldl (\<lambda>data (name, type). data @ ''    '' @ name @ '': '' @ type @ '';'' @ nl) (d @ e) zs
        = d @ foldl (\<lambda>data (name, type). data @ ''    '' @ name @ '': '' @ type @ '';'' @ nl) e zs"
    for e and zs :: "(string \<times> string) list"
    by (induction zs arbitrary: e) (simp_all add: case_prod_beta)
  from this [of "''  interface '' @ typeName @ '' {'' @ nl"]
  show ?thesis by (simp add: emitGenericType_def kv)
qed

lemma buildData_document:
  "fst (buildData lt sos g sumo cat) =
     document lt g sumo (emittedConstants sos g sumo cat) (emittedFunctions lt sos sumo cat)"
proof -
  have t: "foldl emitType d xs = d @ concat (map (emitType []) xs)" for d xs
    by (rule foldl_appending) (rule emitType_appends)
  have e: "foldl emitEnum d xs = d @ concat (map (emitEnum []) xs)" for d xs
    by (rule foldl_appending) (rule emitEnum_appends)
  have i: "foldl emitGenericType d xs = d @ concat (map (emitGenericType []) xs)" for d xs
    by (rule foldl_appending) (rule emitGenericType_appends)
  show ?thesis
    by (simp add: buildData_def document_def header_def tablesText_def emittedConstants_def
        emittedFunctions_def Let_def t e i emitConstants_eq emitFunctions_eq)
qed

lemma buildData_constants:
  "fst (snd (buildData lt sos g sumo cat)) = emittedConstants sos g sumo cat"
  by (simp add: buildData_def emittedConstants_def Let_def emitConstants_eq emitFunctions_eq)

lemma buildData_symbols:
  "snd (snd (buildData lt sos g sumo cat)) =
     map (snd \<circ> emitFunction) (emittedFunctions lt sos sumo cat)"
  by (simp add: buildData_def emittedFunctions_def Let_def emitConstants_eq emitFunctions_eq)

lemma returnOrVoid_eq:
  "(case sym_return (if \<not> truthy (sym_return fn) then fn\<lparr>sym_return := Some ''void''\<rparr> else fn) of
      Some r \<Rightarrow> r | None \<Rightarrow> ''void'') = returnOrVoid fn"
  by (auto simp: returnOrVoid_def truthy_def split: option.splits)

lemma emitFunction_text:
  "fst (emitFunction fn) =
     (case convertReturnType (returnOrVoid fn) of
        Formattable rt \<Rightarrow>
          overloads (sym_name fn) (renderedInputs fn)
            ''outputFormat?: Uint8ArrayOutputFormat | null''
            ''outputFormat: StringOutputFormat | null'' rt
      | Plain ty \<Rightarrow> signature (sym_name fn) (renderedInputs fn) ty)"
  unfolding emitFunction_def Let_def returnOrVoid_eq
  by (simp add: overloads_def signature_def renderedInputs_def formattingAvailable_def
      returnOrVoid_def truthy_def split: returnType.splits option.splits)

lemma emitFunction_symbol: "snd (emitFunction fn) = defaultReturn fn"
  unfolding emitFunction_def Let_def returnOrVoid_eq
  by (simp add: defaultReturn_def split: returnType.splits)

lemma convertReturnType_Formattable_includes:
  assumes "convertReturnType t = Formattable rt"
  shows "includesStr t ''_format_output''"
proof -
  have k: "startsWith t ''{publicKey: _format_output'' \<Longrightarrow> includesStr t ''_format_output''"
    using startsWith_includes [of t "''{publicKey: ''" "''_format_output''" "[]"] by simp
  have p: "startsWith t (''_format_output'' @ q) \<Longrightarrow> includesStr t ''_format_output''" for q
    using startsWith_includes [of t "[]" "''_format_output''" q] by simp
  from assms k p [of "''({ciphertext: ciphertext, mac: mac}''"]
    p [of "''({mac: mac, cipher: cipher}''"]
    p [of "''({sharedRx: sharedRx, sharedTx: sharedTx}''"]
  show ?thesis
    by (simp add: convertReturnType_def split: if_splits)
qed

lemma keypair_return:
  "convertReturnType
     ''{publicKey: _format_output(pk, outputFormat), privateKey: _format_output(sk, outputFormat)}'' =
     Formattable \<lparr>binaryType = ''KeyPair'', stringType = ''StringKeyPair''\<rparr>"
  by (simp add: convertReturnType_def startsWith_def)

lemma seedKeypair_return:
  "convertReturnType (returnOrVoid seedKeypair) =
     Formattable \<lparr>binaryType = ''KeyPair'', stringType = ''StringKeyPair''\<rparr>"
  by (simp add: seedKeypair_def exampleSymbol_def returnOrVoid_def truthy_def keypair_return)

lemma seedKeypair_inputs:
  "renderedInputs seedKeypair = ''seed: string | Uint8Array | undefined | null, ''"
  by (simp add: seedKeypair_def exampleSymbol_def exampleIO_def renderedInputs_def
      getParameters_join renderParameter_def convertType_def formattingAvailable_def
      returnOrVoid_def truthy_def includesStr_iff_sublist sublist_code)

lemma plainKeypair_return:
  "convertReturnType (returnOrVoid plainKeypair) =
     Formattable \<lparr>binaryType = ''KeyPair'', stringType = ''StringKeyPair''\<rparr>"
  by (simp add: plainKeypair_def exampleSymbol_def returnOrVoid_def truthy_def keypair_return)

lemma plainKeypair_inputs: "renderedInputs plainKeypair = []"
  by (simp add: plainKeypair_def exampleSymbol_def renderedInputs_def getParameters_def)

section \<open>Overloads for a paired return type\<close>

text \<open>
  Claim C2, as the code has it. When the return expression of a function resolves to a
  paired type, the emitter writes exactly two signatures with the same rendered input
  parameters. The first ends with the optional selector
  \<open>outputFormat?: Uint8ArrayOutputFormat | null\<close> and returns the binary type; the second ends
  with the selector \<open>outputFormat: StringOutputFormat | null\<close>, which is required (it has no
  question mark) but still admits \<open>null\<close>, and returns the string type.
\<close>

theorem overloads_of_paired_return:
  assumes "convertReturnType (returnOrVoid fn) = Formattable rt"
  shows "fst (emitFunction fn) =
           overloads (sym_name fn) (renderedInputs fn)
             ''outputFormat?: Uint8ArrayOutputFormat | null''
             ''outputFormat: StringOutputFormat | null'' rt"
  using assms by (simp add: emitFunction_text)

theorem overloads_of_paired_return_witness:
  "fst (emitFunction seedKeypair) =
     ''  function crypto_box_seed_keypair(seed: string | Uint8Array | undefined | null, outputFormat?: Uint8ArrayOutputFormat | null): KeyPair;'' @ nl
     @ ''  function crypto_box_seed_keypair(seed: string | Uint8Array | undefined | null, outputFormat: StringOutputFormat | null): StringKeyPair;'' @ nl"
  using overloads_of_paired_return [OF seedKeypair_return]
  by (simp add: seedKeypair_inputs overloads_def signature_def)
     (simp add: seedKeypair_def exampleSymbol_def)

text \<open>
  Claim C2 as stated asks for a string selector that does not admit \<open>null\<close>, which would be
  \<open>outputFormat: StringOutputFormat\<close>. The key-pair function with one optional buffer input
  is not emitted that way.
\<close>

theorem string_selector_admits_null:
  "fst (emitFunction seedKeypair) \<noteq>
     overloads (sym_name seedKeypair) (renderedInputs seedKeypair)
       ''outputFormat?: Uint8ArrayOutputFormat | null''
       ''outputFormat: StringOutputFormat''
       \<lparr>binaryType = ''KeyPair'', stringType = ''StringKeyPair''\<rparr>"
  by (simp add: emitFunction_text seedKeypair_return overloads_def signature_def)

section \<open>Separators between parameters\<close>

text \<open>
  Claim C3 at a function with one input whose return expression contains
  \<open>_format_output\<close> and resolves to the single type \<open>boolean\<close>: the one signature the
  emitter writes has a separator after its last parameter and no parameter after it.
\<close>

theorem dangling_separator:
  "fst (emitFunction formattedTest) = ''  function f(a: Uint8Array, ): boolean;'' @ nl"
proof -
  have r: "returnOrVoid formattedTest = ''_format_output(x, outputFormat) === 0''"
    by (simp add: formattedTest_def exampleSymbol_def returnOrVoid_def truthy_def)
  have c: "convertReturnType ''_format_output(x, outputFormat) === 0'' = Plain ''boolean''"
    by (simp add: convertReturnType_def startsWith_def includesStr_iff_sublist sublist_code)
  have fa: "formattingAvailable formattedTest"
    by (simp add: formattingAvailable_def r includesStr_iff_sublist sublist_code)
  have inp: "sym_inputs formattedTest = Some [exampleIO ''a'' ''buf'']"
    by (simp add: formattedTest_def exampleSymbol_def)
  have i: "renderedInputs formattedTest = ''a: Uint8Array, ''"
    by (simp add: renderedInputs_def inp fa getParameters_join renderParameter_def
        exampleIO_def convertType_def)
  show ?thesis
    by (simp add: emitFunction_text r c i signature_def)
       (simp add: formattedTest_def exampleSymbol_def)
qed

section \<open>A paired return type has the output-format marker\<close>

text \<open>
  Claim C10, as the code has it. A return expression that \<open>convertReturnType\<close> resolves to a
  paired type contains \<open>_format_output\<close>. So whenever the emitter writes two overload
  signatures for a function, \<open>formattingAvailable\<close> is true for it, and every declared
  input is followed by a separator: with at least one declared input the rendered
  parameter list ends with the separator that precedes \<open>outputFormat\<close>, and with no declared
  input the rendered list is empty and \<open>outputFormat\<close> is the only parameter.
\<close>

theorem paired_return_well_formed:
  "(convertReturnType t = Formattable rt \<longrightarrow> includesStr t ''_format_output'')
   \<and> (convertReturnType (returnOrVoid fn) = Formattable rt' \<longrightarrow>
        formattingAvailable fn
        \<and> fst (emitFunction fn) =
            overloads (sym_name fn) (renderedInputs fn)
              ''outputFormat?: Uint8ArrayOutputFormat | null''
              ''outputFormat: StringOutputFormat | null'' rt'
        \<and> renderedInputs fn =
            (case sym_inputs fn of
               None \<Rightarrow> []
             | Some parameterArr \<Rightarrow>
                 concat (map (\<lambda>param. renderParameter param @ '', '') parameterArr))
        \<and> (case sym_inputs fn of
              Some (param # params) \<Rightarrow> suffix '', '' (renderedInputs fn)
            | _ \<Rightarrow> renderedInputs fn = []))"
proof -
  have g: "includesStr t ''_format_output''" if "convertReturnType t = Formattable rt"
    using that by (rule convertReturnType_Formattable_includes)
  have w: "formattingAvailable fn
        \<and> fst (emitFunction fn) =
            overloads (sym_name fn) (renderedInputs fn)
              ''outputFormat?: Uint8ArrayOutputFormat | null''
              ''outputFormat: StringOutputFormat | null'' rt'
        \<and> renderedInputs fn =
            (case sym_inputs fn of
               None \<Rightarrow> []
             | Some parameterArr \<Rightarrow>
                 concat (map (\<lambda>param. renderParameter param @ '', '') parameterArr))
        \<and> (case sym_inputs fn of
              Some (param # params) \<Rightarrow> suffix '', '' (renderedInputs fn)
            | _ \<Rightarrow> renderedInputs fn = [])"
    if paired: "convertReturnType (returnOrVoid fn) = Formattable rt'"
  proof -
    have fa: "formattingAvailable fn"
      using convertReturnType_Formattable_includes [OF paired]
      by (simp add: formattingAvailable_def)
    have j: "joinWith '', '' (map renderParameter xs) @ (if xs \<noteq> [] then '', '' else [])
               = concat (map (\<lambda>param. renderParameter param @ '', '') xs)" for xs
      by (induction xs rule: induct_list012) simp_all
    have r: "renderedInputs fn =
             (case sym_inputs fn of
                None \<Rightarrow> []
              | Some parameterArr \<Rightarrow>
                  concat (map (\<lambda>param. renderParameter param @ '', '') parameterArr))"
      using j by (simp add: renderedInputs_def fa getParameters_join split: option.splits)
    have s: "suffix '', '' (concat (map (\<lambda>param. renderParameter param @ '', '') xs))"
      if "xs \<noteq> []" for xs
    proof -
      from that obtain ys y where xs: "xs = ys @ [y]"
        by (cases xs rule: rev_cases) auto
      show ?thesis
        unfolding suffix_def xs
        by (rule exI [of _ "concat (map (\<lambda>param. renderParameter param @ '', '') ys)
              @ renderParameter y"]) simp
    qed
    have e: "(case sym_inputs fn of
                Some (param # params) \<Rightarrow> suffix '', '' (renderedInputs fn)
              | _ \<Rightarrow> renderedInputs fn = [])"
    proof (cases "sym_inputs fn")
      case None
      then show ?thesis by (simp add: r)
    next
      case (Some xs)
      then show ?thesis
        using s [of xs] by (cases xs) (simp_all add: r)
    qed
    from fa r e show ?thesis
      by (simp add: emitFunction_text paired)
  qed
  from g w show ?thesis
    by blast
qed

theorem paired_return_well_formed_witness:
  "convertReturnType (returnOrVoid seedKeypair) =
     Formattable \<lparr>binaryType = ''KeyPair'', stringType = ''StringKeyPair''\<rparr>
   \<and> formattingAvailable seedKeypair
   \<and> suffix '', '' (renderedInputs seedKeypair)"
proof -
  have i: "sym_inputs seedKeypair = Some [exampleIO ''seed'' ''unsized_buf_optional'']"
    by (simp add: seedKeypair_def exampleSymbol_def)
  from paired_return_well_formed
    [of "returnOrVoid seedKeypair" "\<lparr>binaryType = ''KeyPair'', stringType = ''StringKeyPair''\<rparr>"
      seedKeypair "\<lparr>binaryType = ''KeyPair'', stringType = ''StringKeyPair''\<rparr>"]
    seedKeypair_return
  have "formattingAvailable seedKeypair"
    and "(case sym_inputs seedKeypair of
            Some (param # params) \<Rightarrow> suffix '', '' (renderedInputs seedKeypair)
          | _ \<Rightarrow> renderedInputs seedKeypair = [])"
    by blast+
  then show ?thesis
    using seedKeypair_return by (simp add: i)
qed

text \<open>
  Claim C10 as stated says the rendered parameter list ends with the separator
  whenever two overloads are written. The key-pair function without inputs gets two
  overloads, and its rendered parameter list is empty.
\<close>

theorem no_inputs_no_separator:
  "convertReturnType (returnOrVoid plainKeypair) =
     Formattable \<lparr>binaryType = ''KeyPair'', stringType = ''StringKeyPair''\<rparr>
   \<and> \<not> suffix '', '' (renderedInputs plainKeypair)"
  by (simp add: plainKeypair_return plainKeypair_inputs)

section \<open>The loaders sort by name\<close>

lemma getConstants_sort_key:
  "getConstants g cat =
     sort_key c_name (constantsJson cat @ (if libsodiumVersion g \<noteq> [] then [readyConstant] else []))"
  by (simp add: getConstants_def jsSort_sort_key)

lemma getFunctions_sort_key:
  "getFunctions lt cat = sort_key sym_name (symbolFiles cat @ additionalSymbols lt)"
  by (simp add: getFunctions_def jsSort_sort_key)

lemma emittedConstants_filter:
  "emittedConstants sos g sumo cat =
     filter (\<lambda>c. sumo \<or> toLowerCase (c_name c) \<notin> set sos) (getConstants g cat)"
  by (simp add: emittedConstants_def Let_def)

lemma emittedFunctions_filter:
  "emittedFunctions lt sos sumo cat =
     filter (\<lambda>f. sumo \<or> toLowerCase (sym_name f) \<notin> set sos) (getFunctions lt cat)"
  by (simp add: emittedFunctions_def Let_def)

lemma sorted_names_filter_sort:
  "sorted (map nm (filter P (sort_key nm xs)))"
proof -
  have "sorted (map nm (sort_key nm xs))"
    by (rule sorted_sort_key)
  then show ?thesis
    by (rule sorted_filter)
qed

lemma strict_names_filter_sort:
  assumes "distinct (map nm xs)"
  shows "sorted_wrt (<) (map nm (filter P (sort_key nm xs)))"
proof -
  have "mset (map nm (sort_key nm xs)) = mset (map nm xs)"
    by simp
  then have "distinct (map nm (sort_key nm xs))"
    using assms by (metis distinct_count_atmost_1 set_mset_mset)
  then have "distinct (map nm (filter P (sort_key nm xs)))"
    by (rule distinct_map_filter)
  then show ?thesis
    using sorted_names_filter_sort [of nm P xs] by (simp add: strict_sorted_iff)
qed

lemma toLowerCase_ready: "toLowerCase ''ready'' = ''ready''"
  by (simp add: toLowerCase_def lowerChar_def)

lemma scenarioC_constants:
  "getConstants freshGenerator scenarioC =
     [\<lparr>c_name = ''crypto_X'', c_type = ''uint''\<rparr>, readyConstant]"
  by (simp add: getConstants_def scenarioC_def freshGenerator_def jsSort_def compareByName_def
      readyConstant_def)

lemma scenarioC_functions:
  "getFunctions emptyTypes scenarioC =
     [exampleSymbol ''crypto_Y'' None None, exampleSymbol ''f'' None None]"
  by (simp add: getFunctions_def scenarioC_def emptyTypes_def jsSort_def compareByName_def
      exampleSymbol_def)

lemma toLowerCase_crypto_X: "toLowerCase ''crypto_X'' = ''crypto_x''"
  by code_simp

lemma toLowerCase_crypto_Y: "toLowerCase ''crypto_Y'' = ''crypto_y''"
  by code_simp

lemma toLowerCase_f: "toLowerCase ''f'' = ''f''"
  by code_simp

text \<open>Lower-casing at the ends of the two ranges of upper-case letters and next to them.\<close>

lemma lowerChar_latin1:
  "lowerChar (CHR 0xC9) = CHR 0xE9 \<and> lowerChar (CHR 0xC0) = CHR 0xE0
   \<and> lowerChar (CHR 0xDE) = CHR 0xFE \<and> lowerChar (CHR 0xD7) = CHR 0xD7
   \<and> lowerChar (CHR 0xDF) = CHR 0xDF \<and> lowerChar (CHR 0xFF) = CHR 0xFF
   \<and> lowerChar (CHR ''A'') = CHR ''a'' \<and> lowerChar (CHR ''Z'') = CHR ''z''
   \<and> lowerChar (CHR ''['') = CHR ''['' \<and> lowerChar (CHR ''@'') = CHR ''@''"
  by code_simp

lemma toLowerCase_accent: "toLowerCase (''crypto_'' @ [CHR 0xC9]) = ''crypto_'' @ [CHR 0xE9]"
  by code_simp

lemma accentCatalog_constants:
  "getConstants freshGenerator accentCatalog =
     [\<lparr>c_name = ''crypto_'' @ [CHR 0xC9], c_type = ''uint''\<rparr>, readyConstant]"
  by (simp add: getConstants_def accentCatalog_def freshGenerator_def jsSort_def compareByName_def
      readyConstant_def)

section \<open>The two variants\<close>

text \<open>
  Claim C4. The extended variant declares every loaded constant and function; the
  standard variant declares those of the extended variant whose lower-cased name is
  not in \<open>sumoOnlySymbols\<close>, where lower-casing is \<open>toLowerCase\<close> with the accented
  letters of Latin-1 as well as \<open>A\<close> to \<open>Z\<close>. The same filter is applied to the constants
  and to the functions. The text of the type aliases, enumerations and record types
  (\<open>tablesText\<close>) does not depend on the variant.
\<close>

theorem standard_is_filtered_extended:
  "emittedConstants sos g True cat = getConstants g cat
   \<and> emittedFunctions lt sos True cat = getFunctions lt cat
   \<and> emittedConstants sos g False cat =
       filter (\<lambda>constant. toLowerCase (c_name constant) \<notin> set sos)
         (emittedConstants sos g True cat)
   \<and> emittedFunctions lt sos False cat =
       filter (\<lambda>func. toLowerCase (sym_name func) \<notin> set sos)
         (emittedFunctions lt sos True cat)
   \<and> fst (buildData lt sos g sumo cat) =
       header g sumo @ tablesText lt
       @ concat (map emitConstant (emittedConstants sos g sumo cat)) @ nl
       @ concat (map (fst \<circ> emitFunction) (emittedFunctions lt sos sumo cat)) @ ''}''"
  using buildData_document [of lt sos g sumo cat]
  by (simp add: emittedConstants_def emittedFunctions_def document_def Let_def)

theorem standard_is_filtered_extended_witness:
  "map c_name (emittedConstants sumoOnly freshGenerator True scenarioC) = [''crypto_X'', ''ready'']
   \<and> map c_name (emittedConstants sumoOnly freshGenerator False scenarioC) = [''ready'']
   \<and> map sym_name (emittedFunctions emptyTypes sumoOnly True scenarioC) = [''crypto_Y'', ''f'']
   \<and> map sym_name (emittedFunctions emptyTypes sumoOnly False scenarioC) = [''f'']
   \<and> map c_name (emittedConstants accentOnly freshGenerator True accentCatalog) =
       [''crypto_'' @ [CHR 0xC9], ''ready'']
   \<and> map c_name (emittedConstants accentOnly freshGenerator False accentCatalog) = [''ready'']"
proof -
  from standard_is_filtered_extended [of sumoOnly freshGenerator scenarioC emptyTypes]
  have "emittedConstants sumoOnly freshGenerator True scenarioC =
          [\<lparr>c_name = ''crypto_X'', c_type = ''uint''\<rparr>, readyConstant]"
    and "emittedFunctions emptyTypes sumoOnly True scenarioC =
          [exampleSymbol ''crypto_Y'' None None, exampleSymbol ''f'' None None]"
    and "emittedConstants sumoOnly freshGenerator False scenarioC =
          filter (\<lambda>constant. toLowerCase (c_name constant) \<notin> set sumoOnly)
            [\<lparr>c_name = ''crypto_X'', c_type = ''uint''\<rparr>, readyConstant]"
    and "emittedFunctions emptyTypes sumoOnly False scenarioC =
          filter (\<lambda>func. toLowerCase (sym_name func) \<notin> set sumoOnly)
            [exampleSymbol ''crypto_Y'' None None, exampleSymbol ''f'' None None]"
    by (simp_all add: scenarioC_constants scenarioC_functions)
  then have ascii:
    "map c_name (emittedConstants sumoOnly freshGenerator True scenarioC) = [''crypto_X'', ''ready'']
     \<and> map c_name (emittedConstants sumoOnly freshGenerator False scenarioC) = [''ready'']
     \<and> map sym_name (emittedFunctions emptyTypes sumoOnly True scenarioC) = [''crypto_Y'', ''f'']
     \<and> map sym_name (emittedFunctions emptyTypes sumoOnly False scenarioC) = [''f'']"
    by (simp add: sumoOnly_def readyConstant_def exampleSymbol_def toLowerCase_crypto_X
        toLowerCase_crypto_Y toLowerCase_f toLowerCase_ready)
  from standard_is_filtered_extended [of accentOnly freshGenerator accentCatalog emptyTypes]
  have "emittedConstants accentOnly freshGenerator True accentCatalog =
          [\<lparr>c_name = ''crypto_'' @ [CHR 0xC9], c_type = ''uint''\<rparr>, readyConstant]"
    and "emittedConstants accentOnly freshGenerator False accentCatalog =
          filter (\<lambda>constant. toLowerCase (c_name constant) \<notin> set accentOnly)
            [\<lparr>c_name = ''crypto_'' @ [CHR 0xC9], c_type = ''uint''\<rparr>, readyConstant]"
    by (simp_all add: accentCatalog_constants)
  then have latin1:
    "map c_name (emittedConstants accentOnly freshGenerator True accentCatalog) =
       [''crypto_'' @ [CHR 0xC9], ''ready'']
     \<and> map c_name (emittedConstants accentOnly freshGenerator False accentCatalog) = [''ready'']"
    using toLowerCase_accent
    by (simp add: accentOnly_def readyConstant_def toLowerCase_ready)
  from ascii latin1 show ?thesis
    by blast
qed

section \<open>The order of the declarations\<close>

text \<open>
  Claim C5, as the code has it. The loaders sort after merging (the supplemental
  symbols into the functions, the synthetic constant into the constants), and the
  variant filter keeps a subsequence of the sorted list. So in both variants the names
  of the declared constants and of the declared functions ascend, possibly with equal
  neighbours; when the names of the merged list are pairwise distinct they ascend
  strictly, so that every name is declared once.
\<close>

theorem emitted_names_ascending:
  "getConstants g cat =
     sort_key c_name
       (constantsJson cat @ (if libsodiumVersion g \<noteq> [] then [readyConstant] else []))
   \<and> getFunctions lt cat = sort_key sym_name (symbolFiles cat @ additionalSymbols lt)
   \<and> subseq (emittedConstants sos g sumo cat) (getConstants g cat)
   \<and> subseq (emittedFunctions lt sos sumo cat) (getFunctions lt cat)
   \<and> sorted (map c_name (emittedConstants sos g sumo cat))
   \<and> sorted (map sym_name (emittedFunctions lt sos sumo cat))
   \<and> (distinct (map c_name
          (constantsJson cat @ (if libsodiumVersion g \<noteq> [] then [readyConstant] else [])))
        \<longrightarrow> sorted_wrt (<) (map c_name (emittedConstants sos g sumo cat)))
   \<and> (distinct (map sym_name (symbolFiles cat @ additionalSymbols lt))
        \<longrightarrow> sorted_wrt (<) (map sym_name (emittedFunctions lt sos sumo cat)))
   \<and> fst (buildData lt sos g sumo cat) =
       document lt g sumo (emittedConstants sos g sumo cat) (emittedFunctions lt sos sumo cat)"
proof -
  have "subseq (emittedConstants sos g sumo cat) (getConstants g cat)"
    unfolding emittedConstants_filter by (rule subseq_filter_left)
  moreover have "subseq (emittedFunctions lt sos sumo cat) (getFunctions lt cat)"
    unfolding emittedFunctions_filter by (rule subseq_filter_left)
  moreover have "sorted (map c_name (emittedConstants sos g sumo cat))"
    unfolding emittedConstants_filter getConstants_sort_key by (rule sorted_names_filter_sort)
  moreover have "sorted (map sym_name (emittedFunctions lt sos sumo cat))"
    unfolding emittedFunctions_filter getFunctions_sort_key by (rule sorted_names_filter_sort)
  moreover have "sorted_wrt (<) (map c_name (emittedConstants sos g sumo cat))"
    if "distinct (map c_name
          (constantsJson cat @ (if libsodiumVersion g \<noteq> [] then [readyConstant] else [])))"
    unfolding emittedConstants_filter getConstants_sort_key
    using that by (rule strict_names_filter_sort)
  moreover have "sorted_wrt (<) (map sym_name (emittedFunctions lt sos sumo cat))"
    if "distinct (map sym_name (symbolFiles cat @ additionalSymbols lt))"
    unfolding emittedFunctions_filter getFunctions_sort_key
    using that by (rule strict_names_filter_sort)
  ultimately show ?thesis
    using getConstants_sort_key [of g cat] getFunctions_sort_key [of lt cat]
      buildData_document [of lt sos g sumo cat]
    by blast
qed

lemma readyTwice_names:
  "map c_name (emittedConstants [] freshGenerator True readyTwice) = [''ready'', ''ready'']"
  by (simp add: emittedConstants_def Let_def getConstants_def readyTwice_def freshGenerator_def
      readyConstant_def jsSort_def compareByName_def)

text \<open>
  Claim C5 as stated promises every name once and a strictly ascending order for every
  catalog. An upstream constants file with a constant named \<open>ready\<close> gives two
  declarations of \<open>ready\<close>.
\<close>

theorem ready_declared_twice:
  "\<not> distinct (map c_name (emittedConstants [] freshGenerator True readyTwice))
   \<and> \<not> sorted_wrt (<) (map c_name (emittedConstants [] freshGenerator True readyTwice))"
  by (simp add: readyTwice_names)

lemma scenarioA_names:
  "map c_name (emittedConstants [] freshGenerator False scenarioA) = [''A'', ''B'', ''ready'']"
  by (simp add: emittedConstants_def Let_def getConstants_def scenarioA_def freshGenerator_def
      readyConstant_def jsSort_def compareByName_def)

theorem emitted_names_ascending_witness:
  "distinct (map c_name (constantsJson scenarioA @ [readyConstant]))
   \<and> map c_name (emittedConstants [] freshGenerator False scenarioA) = [''A'', ''B'', ''ready'']
   \<and> sorted_wrt (<) (map c_name (emittedConstants [] freshGenerator False scenarioA))"
proof -
  have v: "libsodiumVersion freshGenerator \<noteq> []"
    by (simp add: freshGenerator_def)
  have d: "distinct (map c_name (constantsJson scenarioA @ [readyConstant]))"
    by (simp add: scenarioA_def readyConstant_def)
  from emitted_names_ascending [of freshGenerator scenarioA emptyTypes "[]" False] v d
  have "sorted_wrt (<) (map c_name (emittedConstants [] freshGenerator False scenarioA))"
    by simp
  with d scenarioA_names show ?thesis
    by simp
qed

section \<open>The synthetic constant\<close>

lemma emitConstant_ready: "emitConstant readyConstant = ''  const ready: Promise<void>;'' @ nl"
  by (simp add: emitConstant_def readyConstant_def convertType_def)

text \<open>
  Claim C6. Whatever the upstream constants file holds, the loader adds the constant
  \<open>ready\<close> of type \<open>Promise<void>\<close> once, and the document of either variant declares
  it at its place among the constants, which ascend by name. The first hypothesis is
  the guard of the loader, that the generator's version is a non-empty string: it
  holds for a new generator (\<open>0.7.3\<close>) and is kept by every method (lemmas of the
  section on the download version). The second is about the table \<open>sumoOnlySymbols\<close>,
  which is not among the sources: the standard variant keeps \<open>ready\<close> when the table
  does not list that name.
\<close>

theorem ready_constant_emitted:
  assumes version: "libsodiumVersion g \<noteq> []"
    and kept: "sumo \<or> ''ready'' \<notin> set sos"
  shows "mset (getConstants g cat) = add_mset readyConstant (mset (constantsJson cat))
       \<and> (\<exists>before after.
            emittedConstants sos g sumo cat = before @ readyConstant # after
          \<and> sorted (map c_name before @ ''ready'' # map c_name after)
          \<and> fst (buildData lt sos g sumo cat) =
              header g sumo @ tablesText lt
              @ concat (map emitConstant before)
              @ ''  const ready: Promise<void>;'' @ nl
              @ concat (map emitConstant after) @ nl
              @ concat (map (fst \<circ> emitFunction) (emittedFunctions lt sos sumo cat)) @ ''}'')"
proof -
  have loaded: "getConstants g cat = sort_key c_name (constantsJson cat @ [readyConstant])"
    using version by (simp add: getConstants_sort_key)
  then have m: "mset (getConstants g cat) = add_mset readyConstant (mset (constantsJson cat))"
    by simp
  have "readyConstant \<in> set (getConstants g cat)"
    by (simp add: loaded)
  moreover have "sumo \<or> toLowerCase (c_name readyConstant) \<notin> set sos"
    using kept by (simp add: readyConstant_def toLowerCase_ready)
  ultimately have "readyConstant \<in> set (emittedConstants sos g sumo cat)"
    by (simp add: emittedConstants_filter)
  then obtain before after
    where split: "emittedConstants sos g sumo cat = before @ readyConstant # after"
    by (auto simp: in_set_conv_decomp)
  have "sorted (map c_name (emittedConstants sos g sumo cat))"
    unfolding emittedConstants_filter getConstants_sort_key by (rule sorted_names_filter_sort)
  then have s: "sorted (map c_name before @ ''ready'' # map c_name after)"
    by (simp add: split readyConstant_def)
  have "fst (buildData lt sos g sumo cat) =
          header g sumo @ tablesText lt
          @ concat (map emitConstant before)
          @ ''  const ready: Promise<void>;'' @ nl
          @ concat (map emitConstant after) @ nl
          @ concat (map (fst \<circ> emitFunction) (emittedFunctions lt sos sumo cat)) @ ''}''"
    by (simp add: buildData_document document_def split emitConstant_ready)
  with m split s show ?thesis
    by blast
qed

theorem ready_constant_emitted_witness:
  "libsodiumVersion freshGenerator \<noteq> []
   \<and> mset (getConstants freshGenerator scenarioA) =
       add_mset readyConstant (mset (constantsJson scenarioA))
   \<and> (\<exists>before after.
        emittedConstants [] freshGenerator False scenarioA = before @ readyConstant # after
      \<and> sorted (map c_name before @ ''ready'' # map c_name after)
      \<and> fst (buildData emptyTypes [] freshGenerator False scenarioA) =
          header freshGenerator False @ tablesText emptyTypes
          @ concat (map emitConstant before)
          @ ''  const ready: Promise<void>;'' @ nl
          @ concat (map emitConstant after) @ nl
          @ concat (map (fst \<circ> emitFunction) (emittedFunctions emptyTypes [] False scenarioA))
          @ ''}'')"
proof -
  have v: "libsodiumVersion freshGenerator \<noteq> []"
    by (simp add: freshGenerator_def)
  have k: "False \<or> ''ready'' \<notin> set []"
    by simp
  from ready_constant_emitted [OF v k, of scenarioA emptyTypes] v show ?thesis
    by simp
qed

section \<open>What the emitter changes in the loaded data\<close>

text \<open>
  Claim C7, as the code has it. The loop over the constants leaves every constant as
  loaded. The loop over the functions leaves every symbol as loaded except for its
  \<open>return\<close> field, which afterwards holds the return expression the emitter worked
  with: a \<open>return\<close> that is a non-empty string is unchanged, and one that is absent or
  empty has become \<open>'void'\<close>.
\<close>

theorem only_return_is_defaulted:
  "fst (snd (buildData lt sos g sumo cat)) = emittedConstants sos g sumo cat
   \<and> snd (snd (buildData lt sos g sumo cat)) =
       map (\<lambda>fn. fn\<lparr>sym_return := Some (returnOrVoid fn)\<rparr>) (emittedFunctions lt sos sumo cat)
   \<and> (truthy (sym_return fn) \<longrightarrow> fn\<lparr>sym_return := Some (returnOrVoid fn)\<rparr> = fn)
   \<and> (\<not> truthy (sym_return fn) \<longrightarrow> returnOrVoid fn = ''void'')"
proof -
  have d: "snd (emitFunction f) = f\<lparr>sym_return := Some (returnOrVoid f)\<rparr>" for f
    by (auto simp: emitFunction_symbol defaultReturn_def returnOrVoid_def truthy_def
        split: option.splits)
  have "truthy (sym_return fn) \<Longrightarrow> fn\<lparr>sym_return := Some (returnOrVoid fn)\<rparr> = fn"
    by (auto simp: returnOrVoid_def truthy_def split: option.splits)
  then show ?thesis
    by (simp add: buildData_constants buildData_symbols d comp_def returnOrVoid_def)
qed

theorem only_return_is_defaulted_witness:
  "truthy (sym_return seedKeypair)
   \<and> seedKeypair\<lparr>sym_return := Some (returnOrVoid seedKeypair)\<rparr> = seedKeypair
   \<and> snd (snd (buildData emptyTypes [] freshGenerator True oneKeypair)) =
       map (\<lambda>fn. fn\<lparr>sym_return := Some (returnOrVoid fn)\<rparr>)
         (emittedFunctions emptyTypes [] True oneKeypair)"
proof -
  have t: "truthy (sym_return seedKeypair)"
    by (simp add: seedKeypair_def exampleSymbol_def truthy_def)
  from only_return_is_defaulted [of emptyTypes "[]" freshGenerator True oneKeypair seedKeypair] t
  show ?thesis
    by simp
qed

lemma oneFunction_emitted: "emittedFunctions emptyTypes [] True oneFunction = [noReturn]"
  by (simp add: emittedFunctions_def Let_def getFunctions_def oneFunction_def emptyTypes_def
      jsSort_def)

text \<open>
  Claim C7 as stated says that emitting a function without a \<open>return\<close> field leaves the
  field absent. After the document of a catalog with one such function is built, the
  field of that symbol holds \<open>'void'\<close>.
\<close>

theorem absent_return_becomes_void:
  "sym_return noReturn = None
   \<and> map sym_return (snd (snd (buildData emptyTypes [] freshGenerator True oneFunction))) =
       [Some ''void'']"
  by (simp add: buildData_symbols oneFunction_emitted emitFunction_symbol defaultReturn_def)
     (simp add: noReturn_def exampleSymbol_def truthy_def)

section \<open>Setting the download version\<close>

lemma compare_074_073: "compareVersionNumbers ''0.7.4'' ''0.7.3'' = Num 1"
  by (simp add: compareVersionNumbers_def isPositiveInteger_def isDigit_def parseNat_def)

lemma compare_075_073: "compareVersionNumbers ''0.7.5'' ''0.7.3'' = Num 1"
  by (simp add: compareVersionNumbers_def isPositiveInteger_def isDigit_def parseNat_def)

lemma compare_074_075: "compareVersionNumbers ''0.7.4'' ''0.7.5'' = Num (- 1)"
  by (simp add: compareVersionNumbers_def isPositiveInteger_def isDigit_def parseNat_def)

lemma compare_empty: "compareVersionNumbers [] v = NaN"
  by (simp add: compareVersionNumbers_def isPositiveInteger_def)

text \<open>
  Claim C8, as the code has it. \<open>setDownloadVersion\<close> rejects exactly when the comparison
  of the given string with the generator's active version is \<open>NaN\<close> or negative; the
  active version of a new generator is \<open>0.7.3\<close>. On rejection the generator and the
  world are as before the call, so nothing was fetched and the active version is
  unchanged; on acceptance the active version is the given string and nothing else has
  changed.
\<close>

theorem setDownloadVersion_compares_with_active_version:
  "(isl (fst (setDownloadVersion cmp version (g, w))) \<longleftrightarrow>
      isNaN (cmp version (getVersion g)) \<or> belowZero (cmp version (getVersion g)))
   \<and> (isl (fst (setDownloadVersion cmp version (g, w))) \<longrightarrow>
        snd (setDownloadVersion cmp version (g, w)) = (g, w))
   \<and> (\<not> isl (fst (setDownloadVersion cmp version (g, w))) \<longrightarrow>
        snd (setDownloadVersion cmp version (g, w)) = (g\<lparr>libsodiumVersion := version\<rparr>, w)
        \<and> getVersion (fst (snd (setDownloadVersion cmp version (g, w)))) = version)
   \<and> getVersion (newTypeGenerator target localSource) = ''0.7.3''"
  by (simp add: setDownloadVersion_def getVersion_def newTypeGenerator_def Let_def)

theorem setDownloadVersion_compares_with_active_version_witness:
  "isl (fst (setDownloadVersion compareVersionNumbers ''0.7.4''
         ((newTypeGenerator ''/out'' None)\<lparr>libsodiumVersion := ''0.7.5''\<rparr>, ())))
   \<and> snd (setDownloadVersion compareVersionNumbers ''0.7.4''
         ((newTypeGenerator ''/out'' None)\<lparr>libsodiumVersion := ''0.7.5''\<rparr>, ())) =
       ((newTypeGenerator ''/out'' None)\<lparr>libsodiumVersion := ''0.7.5''\<rparr>, ())"
  using setDownloadVersion_compares_with_active_version
    [of compareVersionNumbers "''0.7.4''"
      "(newTypeGenerator ''/out'' None)\<lparr>libsodiumVersion := ''0.7.5''\<rparr>" "()"]
  by (simp add: getVersion_def compare_074_075 belowZero_def)

text \<open>
  Claim C8 as stated takes \<open>0.7.3\<close> for the floor of every call. After version \<open>0.7.5\<close>
  was accepted, version \<open>0.7.4\<close> is rejected, although it is numeric and not below
  \<open>0.7.3\<close>.
\<close>

theorem floor_moves_with_active_version:
  "setDownloadVersion compareVersionNumbers ''0.7.5'' (newTypeGenerator ''/out'' None, ()) =
     (Inr (), ((newTypeGenerator ''/out'' None)\<lparr>libsodiumVersion := ''0.7.5''\<rparr>, ()))
   \<and> isl (fst (setDownloadVersion compareVersionNumbers ''0.7.4''
         ((newTypeGenerator ''/out'' None)\<lparr>libsodiumVersion := ''0.7.5''\<rparr>, ())))
   \<and> \<not> (isNaN (compareVersionNumbers ''0.7.4'' ''0.7.3'')
          \<or> belowZero (compareVersionNumbers ''0.7.4'' ''0.7.3''))"
  by (simp add: setDownloadVersion_def newTypeGenerator_def compare_074_073 compare_075_073
      compare_074_075 isNaN_def belowZero_def)

text \<open>
  The active version is never the empty string: not in a new generator, and not after
  \<open>setDownloadVersion\<close> or \<open>generate\<close>.
\<close>

lemma setDownloadVersion_version_nonempty:
  assumes "libsodiumVersion g \<noteq> []"
  shows "libsodiumVersion (fst (snd (setDownloadVersion compareVersionNumbers version (g, w)))) \<noteq> []"
  using assms compare_empty [of "libsodiumVersion g"]
  by (cases "version = []") (auto simp: setDownloadVersion_def Let_def isNaN_def)

lemma newTypeGenerator_version_nonempty: "libsodiumVersion (newTypeGenerator target localSource) \<noteq> []"
  by (simp add: newTypeGenerator_def)

lemma keeps_await:
  assumes "keeps P step"
    and "\<And>a g w. P g \<Longrightarrow> keeps P (rest a (g, w))"
  shows "keeps P (await step rest)"
  using assms by (auto simp: keeps_def await_def split: prod.splits sum.splits)

lemma keeps_outside: "P g \<Longrightarrow> keeps P (outside g step)"
  by (simp add: keeps_def outside_def split: prod.splits)

lemma keeps_value: "P g \<Longrightarrow> keeps P (r, (g, w))"
  by (simp add: keeps_def)

lemma downloadLibrary_version:
  "keeps (\<lambda>g'. libsodiumVersion g' = v) (downloadLibrary io (g, w))" if "libsodiumVersion g = v"
  unfolding downloadLibrary_def prod.case Let_def
  apply (rule keeps_await)
   apply (simp add: keeps_def that split: prod.splits sum.splits error.splits)
  apply (simp only: prod.case)
  apply (rule keeps_await)
   apply (rule keeps_outside, assumption)
  apply (simp only: prod.case)
  apply (rule keeps_await)
   apply (rule keeps_outside, assumption)
  apply (simp only: prod.case)
  apply (rule keeps_value, assumption)
  done

lemma generate_version:
  "keeps (\<lambda>g'. libsodiumVersion g' = libsodiumVersion g) (generate io lt sos sumo (g, w))"
  unfolding generate_def prod.case Let_def
  apply (rule keeps_await)
   apply (cases "truthy (libsodiumLocalSource g)")
    apply (simp add: keeps_def)
   apply (simp only: if_False)
   apply (rule keeps_await)
    apply (rule downloadLibrary_version, rule refl)
   apply (simp add: keeps_def)
  apply (simp only: prod.case)
  apply (rule keeps_await, rule keeps_outside, assumption, simp only: prod.case)+
  apply (rule keeps_await, rule keeps_outside, simp, simp only: prod.case)
  apply (rule keeps_await)
   apply (simp add: keeps_def outside_def split: prod.splits)
  apply (simp only: prod.case)
  apply (rule keeps_await)
   apply (simp add: keeps_def outside_def await_def split: prod.splits sum.splits)
  apply (simp add: keeps_def)
  done

section \<open>Where generate writes\<close>

text \<open>
  When \<open>generate\<close> resolves, its value is the target the generator holds afterwards:
  the target it held before, or the file for the requested variant inside it.
\<close>

lemma resolves_await_with:
  assumes "resolves Q' step"
    and "\<And>a g w. Q' a g \<Longrightarrow> resolves Q (rest a (g, w))"
  shows "resolves Q (await step rest)"
proof -
  obtain r g w where step: "step = (r, (g, w))"
    by (cases step) auto
  show ?thesis
  proof (cases r)
    case (Inl e)
    then show ?thesis
      by (simp add: step await_def resolves_def)
  next
    case (Inr a)
    then have "Q' a g"
      using assms(1) by (simp add: step resolves_def)
    then show ?thesis
      using assms(2) [of a g w] Inr by (simp add: step await_def)
  qed
qed

lemma resolves_outside: "(\<And>a. Q a g) \<Longrightarrow> resolves Q (outside g step)"
  by (cases step) (simp add: resolves_def outside_def split: sum.splits)

lemma downloadLibrary_target:
  "resolves (\<lambda>src g'. outputFileOrDir g' = outputFileOrDir g) (downloadLibrary io (g, w))"
  unfolding downloadLibrary_def prod.case Let_def
  apply (rule resolves_await_with [where Q' = "\<lambda>_ g'. outputFileOrDir g' = outputFileOrDir g"])
   apply (simp add: resolves_def split: prod.splits sum.splits error.splits)
  apply (simp only: prod.case)
  apply (rule resolves_await_with [where Q' = "\<lambda>_ g'. outputFileOrDir g' = outputFileOrDir g"])
   apply (rule resolves_outside, assumption)
  apply (simp only: prod.case)
  apply (rule resolves_await_with [where Q' = "\<lambda>_ g'. outputFileOrDir g' = outputFileOrDir g"])
   apply (rule resolves_outside, assumption)
  apply (simp add: resolves_def)
  done

lemma generate_target:
  "resolves
     (\<lambda>p g'. outputFileOrDir g' = p
        \<and> (p = outputFileOrDir g
           \<or> p = pathResolve (outputFileOrDir g) (''libsodium-wrappers'' @ sumoSuffix sumo @ ''.d.ts'')))
     (generate io lt sos sumo (g, w))"
  unfolding generate_def prod.case Let_def
  apply (rule resolves_await_with [where Q' = "\<lambda>_ g'. outputFileOrDir g' = outputFileOrDir g"])
   apply (cases "truthy (libsodiumLocalSource g)")
    apply (simp add: resolves_def)
   apply (simp only: if_False)
   apply (rule resolves_await_with [OF downloadLibrary_target])
   apply (simp add: resolves_def)
  apply (simp only: prod.case)
  apply (rule resolves_await_with [where Q' = "\<lambda>_ g'. outputFileOrDir g' = outputFileOrDir g"])
   apply (rule resolves_outside, assumption)
  apply (simp only: prod.case)
  apply (rule resolves_await_with [where Q' = "\<lambda>_ g'. outputFileOrDir g' = outputFileOrDir g"])
   apply (rule resolves_outside, assumption)
  apply (simp only: prod.case)
  apply (rule resolves_await_with [where Q' = "\<lambda>_ g'. outputFileOrDir g' = outputFileOrDir g"])
   apply (rule resolves_outside, assumption)
  apply (simp only: prod.case)
  apply (rule resolves_await_with [where Q' = "\<lambda>_ g'. outputFileOrDir g' = outputFileOrDir g
           \<or> outputFileOrDir g' = pathResolve (outputFileOrDir g) (''libsodium-wrappers'' @ sumoSuffix sumo @ ''.d.ts'')"])
   apply (rule resolves_outside, simp)
  apply (simp only: prod.case)
  apply (rule resolves_await_with [where Q' = "\<lambda>_ g'. outputFileOrDir g' = outputFileOrDir g
           \<or> outputFileOrDir g' = pathResolve (outputFileOrDir g) (''libsodium-wrappers'' @ sumoSuffix sumo @ ''.d.ts'')"])
   apply (simp add: resolves_def outside_def split: prod.splits sum.splits)
  apply (simp only: prod.case)
  apply (rule resolves_await_with [where Q' = "\<lambda>_ g'. outputFileOrDir g' = outputFileOrDir g
           \<or> outputFileOrDir g' = pathResolve (outputFileOrDir g) (''libsodium-wrappers'' @ sumoSuffix sumo @ ''.d.ts'')"])
   apply (simp add: resolves_def outside_def await_def split: prod.splits sum.splits)
  apply (simp add: resolves_def)
  done

text \<open>
  The text a symbol gets does not change when the emitter has defaulted its \<open>return\<close>
  field, so a supplemental symbol that an earlier call has changed is emitted as
  before.
\<close>

lemma emitFunction_defaultReturn: "fst (emitFunction (defaultReturn fn)) = fst (emitFunction fn)"
proof -
  have r: "returnOrVoid (defaultReturn fn) = returnOrVoid fn"
    by (simp add: defaultReturn_def returnOrVoid_def truthy_def)
  have n: "sym_name (defaultReturn fn) = sym_name fn"
    and i: "sym_inputs (defaultReturn fn) = sym_inputs fn"
    by (simp_all add: defaultReturn_def)
  have f: "formattingAvailable (defaultReturn fn) = formattingAvailable fn"
    by (simp add: formattingAvailable_def r)
  have "renderedInputs (defaultReturn fn) = renderedInputs fn"
    by (simp add: renderedInputs_def f i split: option.splits)
  then show ?thesis
    by (simp add: emitFunction_text r n split: returnType.splits)
qed

lemma generateStandard_outWorld:
  "generateStandard memoryIO emptyTypes [] (outGenerator, outWorld) =
     (Inr ''/out/libsodium-wrappers.d.ts'',
      (afterStandard,
       \<lparr>nodes =
          [(''/out/libsodium-wrappers.d.ts'',
            File (fst (buildData emptyTypes [] (outGenerator\<lparr>sourceIsSet := True\<rparr>) False
                         emptyCatalog))),
           (''/out'', Directory)],
        catalogs = [(''/libsodium.js'', emptyCatalog)]\<rparr>))"
  by (simp add: generateStandard_def generate_def await_def outside_def memoryIO_def
      outGenerator_def newTypeGenerator_def outWorld_def truthy_def pathResolve_def
      sumoSuffix_def afterStandard_def)

lemma generateSumo_afterStandard:
  "generateSumo memoryIO emptyTypes []
     (afterStandard,
      \<lparr>nodes = [(''/out/libsodium-wrappers.d.ts'', File standard), (''/out'', Directory)],
       catalogs = [(''/libsodium.js'', emptyCatalog)]\<rparr>) =
     (Inr ''/out/libsodium-wrappers.d.ts'',
      (afterStandard,
       \<lparr>nodes =
          [(''/out/libsodium-wrappers.d.ts'',
            File (fst (buildData emptyTypes [] afterStandard True emptyCatalog))),
           (''/out/libsodium-wrappers.d.ts'', File standard),
           (''/out'', Directory)],
        catalogs = [(''/libsodium.js'', emptyCatalog)]\<rparr>))"
  by (simp add: generateSumo_def generate_def await_def outside_def memoryIO_def
      truthy_def afterStandard_def)

lemma documents_differ:
  "fst (buildData lt sos g True cat) \<noteq> fst (buildData lt sos g' False cat')"
  by (simp add: buildData_document document_def header_def sumoSuffix_def)

text \<open>
  Claim C9 at two calls on one generator whose target is the directory \<open>/out\<close>:
  \<open>generateStandard\<close> writes \<open>/out/libsodium-wrappers.d.ts\<close> and leaves that path in
  \<open>outputFileOrDir\<close>; \<open>generateSumo\<close> then finds a file there, not a directory, and
  writes the document of the extended variant, which is not the document of the
  standard variant, to the same path. No file \<open>/out/libsodium-wrappers-sumo.d.ts\<close>
  exists afterwards.
\<close>

theorem sumo_document_in_standard_file:
  "fst (generateStandard memoryIO emptyTypes [] (outGenerator, outWorld)) =
     Inr ''/out/libsodium-wrappers.d.ts''
   \<and> fst (generateSumo memoryIO emptyTypes []
            (snd (generateStandard memoryIO emptyTypes [] (outGenerator, outWorld)))) =
       Inr ''/out/libsodium-wrappers.d.ts''
   \<and> map_of (nodes (snd (snd (generateSumo memoryIO emptyTypes []
            (snd (generateStandard memoryIO emptyTypes [] (outGenerator, outWorld)))))))
         ''/out/libsodium-wrappers.d.ts'' =
       Some (File (fst (buildData emptyTypes [] afterStandard True emptyCatalog)))
   \<and> map_of (nodes (snd (snd (generateSumo memoryIO emptyTypes []
            (snd (generateStandard memoryIO emptyTypes [] (outGenerator, outWorld)))))))
         ''/out/libsodium-wrappers-sumo.d.ts'' = None
   \<and> fst (buildData emptyTypes [] afterStandard True emptyCatalog) \<noteq>
       fst (buildData emptyTypes [] (outGenerator\<lparr>sourceIsSet := True\<rparr>) False emptyCatalog)"
  by (simp add: generateStandard_outWorld generateSumo_afterStandard documents_differ)

end
